theory Spec2Isabelle
  imports Main "HOL-Library.Word" "HOL-Library.Sublist"
begin

section \<open>The environment of local\_store.c\<close>

text \<open>
  The storage source of \<^verbatim>\<open>ext/storage_sources/local_store/local_store.c\<close> talks to the
  operating system through a handful of calls: \<^verbatim>\<open>open\<close>, \<^verbatim>\<open>close\<close>, \<^verbatim>\<open>unlink\<close>,
  \<^verbatim>\<open>rename\<close>, \<^verbatim>\<open>select\<close>, \<^verbatim>\<open>opendir\<close>/\<^verbatim>\<open>readdir\<close>, \<^verbatim>\<open>pread\<close>, \<^verbatim>\<open>pwrite\<close> and the
  \<^verbatim>\<open>pthread_rwlock\<close> functions. They are modelled by a record \<open>world\<close> that is passed
  through every function: names map to inodes, descriptors map to inodes, every call is
  appended to \<open>trace\<close>, and \<open>fault\<close> tells for each call whether the system makes it
  fail and with which error number (0: the call runs normally).

  Two things are left out on purpose. Allocation (\<^verbatim>\<open>malloc\<close>, \<^verbatim>\<open>calloc\<close>, \<^verbatim>\<open>strdup\<close>,
  \<^verbatim>\<open>realloc\<close>) always succeeds, so the \<^verbatim>\<open>ENOMEM\<close> branches do not appear. Messages
  (\<^verbatim>\<open>local_err\<close>'s printing, \<^verbatim>\<open>VERBOSE\<close>) are not recorded; \<^verbatim>\<open>local_err\<close> returns its
  third argument, and the model writes that value where the source calls it.
\<close>

type_synonym byte = "8 word"

datatype lockid = FILE_HANDLE_LOCK | FLUSH_LOCK

datatype oflags = O_RDONLY | O_WRONLY_CREAT

datatype syscall =
    SysOpen string oflags nat
  | SysClose int
  | SysUnlink string
  | SysRename string string
  | SysSelect nat nat
  | SysOpendir string
  | SysPread int nat int
  | SysPwrite int "byte list" int
  | SysWrlock lockid
  | SysUnlock lockid

record world =
  files :: "string \<rightharpoonup> nat"
  inodes :: "nat \<Rightarrow> byte list"
  next_ino :: nat
  fds :: "int \<rightharpoonup> nat"
  next_fd :: nat
  dirs :: "string \<Rightarrow> string list"
  errno :: int
  trace :: "syscall list"
  fault :: "syscall \<Rightarrow> int"

text \<open>Error numbers of \<^verbatim>\<open>errno.h\<close> (Linux values).\<close>

definition ENOENT :: int where "ENOENT = 2"
definition EBADF :: int where "EBADF = 9"
definition EINVAL :: int where "EINVAL = 22"
definition ENETUNREACH :: int where "ENETUNREACH = 101"

definition logged :: "world \<Rightarrow> syscall \<Rightarrow> world" where
  "logged w c = w\<lparr>trace := trace w @ [c]\<rparr>"

definition sys_open :: "world \<Rightarrow> string \<Rightarrow> oflags \<Rightarrow> nat \<Rightarrow> int \<times> world" where
  "sys_open w p fl mode =
     (let c = SysOpen p fl mode; w1 = logged w c in
      if fault w c \<noteq> 0 then (-1, w1\<lparr>errno := fault w c\<rparr>)
      else (case files w p of
              Some i \<Rightarrow> (int (next_fd w),
                         w1\<lparr>fds := (fds w)(int (next_fd w) \<mapsto> i), next_fd := Suc (next_fd w)\<rparr>)
            | None \<Rightarrow>
                if fl = O_RDONLY then (-1, w1\<lparr>errno := ENOENT\<rparr>)
                else (int (next_fd w),
                      w1\<lparr>files := (files w)(p \<mapsto> next_ino w),
                         inodes := (inodes w)(next_ino w := []),
                         next_ino := Suc (next_ino w),
                         fds := (fds w)(int (next_fd w) \<mapsto> next_ino w),
                         next_fd := Suc (next_fd w)\<rparr>)))"

definition sys_close :: "world \<Rightarrow> int \<Rightarrow> int \<times> world" where
  "sys_close w fd =
     (let c = SysClose fd; w1 = logged w c in
      if fault w c \<noteq> 0 then (-1, w1\<lparr>errno := fault w c\<rparr>)
      else if fds w fd = None then (-1, w1\<lparr>errno := EBADF\<rparr>)
      else (0, w1\<lparr>fds := (fds w)(fd := None)\<rparr>))"

definition sys_unlink :: "world \<Rightarrow> string \<Rightarrow> int \<times> world" where
  "sys_unlink w p =
     (let c = SysUnlink p; w1 = logged w c in
      if fault w c \<noteq> 0 then (-1, w1\<lparr>errno := fault w c\<rparr>)
      else if files w p = None then (-1, w1\<lparr>errno := ENOENT\<rparr>)
      else (0, w1\<lparr>files := (files w)(p := None)\<rparr>))"

definition sys_rename :: "world \<Rightarrow> string \<Rightarrow> string \<Rightarrow> int \<times> world" where
  "sys_rename w old new =
     (let c = SysRename old new; w1 = logged w c in
      if fault w c \<noteq> 0 then (-1, w1\<lparr>errno := fault w c\<rparr>)
      else if files w old = None then (-1, w1\<lparr>errno := ENOENT\<rparr>)
      else if old = new then (0, w1)
      else (0, w1\<lparr>files := (files w)(new := files w old, old := None)\<rparr>))"

definition sys_select :: "world \<Rightarrow> nat \<Rightarrow> nat \<Rightarrow> world" where
  "sys_select w sec usec = logged w (SysSelect sec usec)"

text \<open>
  \<^verbatim>\<open>opendir\<close> followed by \<^verbatim>\<open>readdir\<close> until it returns NULL: the names of the directory
  in the order the file system enumerates them (\<open>dirs\<close>), or nothing and \<open>errno\<close>.
\<close>

definition sys_opendir :: "world \<Rightarrow> string \<Rightarrow> string list option \<times> world" where
  "sys_opendir w p =
     (let c = SysOpendir p; w1 = logged w c in
      if fault w c \<noteq> 0 then (None, w1\<lparr>errno := fault w c\<rparr>)
      else (Some (dirs w p), w1))"

text \<open>
  \<^verbatim>\<open>pread\<close> delivers what the file holds from the offset on, at most \<open>len\<close> bytes, and 0
  bytes at or after the end of the file; \<^verbatim>\<open>pwrite\<close> stores all the bytes it is given,
  filling a gap with zero bytes.
\<close>

definition sys_pread :: "world \<Rightarrow> int \<Rightarrow> 64 word \<Rightarrow> int \<Rightarrow> int \<times> byte list \<times> world" where
  "sys_pread w fd len offset =
     (let c = SysPread fd (unat len) offset; w1 = logged w c in
      if fault w c \<noteq> 0 then (-1, [], w1\<lparr>errno := fault w c\<rparr>)
      else (case fds w fd of
              None \<Rightarrow> (-1, [], w1\<lparr>errno := EBADF\<rparr>)
            | Some i \<Rightarrow>
                if offset < 0 then (-1, [], w1\<lparr>errno := EINVAL\<rparr>)
                else (let d = take (unat len) (drop (nat offset) (inodes w i))
                      in (int (length d), d, w1))))"

definition sys_pwrite :: "world \<Rightarrow> int \<Rightarrow> byte list \<Rightarrow> int \<Rightarrow> int \<times> world" where
  "sys_pwrite w fd d offset =
     (let c = SysPwrite fd d offset; w1 = logged w c in
      if fault w c \<noteq> 0 then (-1, w1\<lparr>errno := fault w c\<rparr>)
      else (case fds w fd of
              None \<Rightarrow> (-1, w1\<lparr>errno := EBADF\<rparr>)
            | Some i \<Rightarrow>
                if offset < 0 then (-1, w1\<lparr>errno := EINVAL\<rparr>)
                else (let old = inodes w i;
                          padded = old @ replicate (nat offset - length old) 0
                      in (int (length d),
                          w1\<lparr>inodes := (inodes w)
                                (i := take (nat offset) padded @ d
                                      @ drop (nat offset + length d) padded)\<rparr>))))"

text \<open>The lock functions return their error number (0 on success).\<close>

definition pthread_rwlock_wrlock :: "world \<Rightarrow> lockid \<Rightarrow> int \<times> world" where
  "pthread_rwlock_wrlock w l = (fault w (SysWrlock l), logged w (SysWrlock l))"

definition pthread_rwlock_unlock :: "world \<Rightarrow> lockid \<Rightarrow> int \<times> world" where
  "pthread_rwlock_unlock w l = (fault w (SysUnlock l), logged w (SysUnlock l))"

section \<open>C strings\<close>

text \<open>
  A C string is the list of its characters before the terminating NUL. \<^verbatim>\<open>strncmp(a, b, n)\<close>
  is 0 exactly when the first \<open>n\<close> characters agree (or both strings end, equal, before that).
\<close>

definition strncmp_eq :: "string \<Rightarrow> string \<Rightarrow> nat \<Rightarrow> bool" where
  "strncmp_eq a b n = (take n a = take n b)"

text \<open>\<^verbatim>\<open>strstr\<close>: the position of the first occurrence of the whole string \<open>needle\<close>.\<close>

fun strstr :: "string \<Rightarrow> string \<Rightarrow> nat option" where
  "strstr [] needle = (if needle = [] then Some 0 else None)"
| "strstr (c # cs) needle =
     (if take (length needle) (c # cs) = needle then Some 0
      else map_option Suc (strstr cs needle))"

text \<open>\<^verbatim>\<open>strrchr\<close>: the position of the last occurrence of a character.\<close>

fun strrchr :: "string \<Rightarrow> char \<Rightarrow> nat option" where
  "strrchr [] c = None"
| "strrchr (x # xs) c =
     (case strrchr xs c of
        Some i \<Rightarrow> Some (Suc i)
      | None \<Rightarrow> if x = c then Some 0 else None)"

section \<open>The data of the storage source\<close>

text \<open>
  A dereference of a NULL pointer has no result in C; the model gives such an execution
  the value \<open>Inl NullDereference\<close>.
\<close>

datatype crash = NullDereference

text \<open>
  \<^verbatim>\<open>LOCAL_FLUSH_ITEM\<close>. The item is allocated with \<^verbatim>\<open>calloc\<close>, so \<open>src_path\<close>, the bucket and
  the key management identifier are NULL (\<open>None\<close>) until they are assigned. The fields
  \<^verbatim>\<open>bucket\<close> and \<^verbatim>\<open>kmsid\<close> carry the prefix \<open>flush_\<close> here, the location has fields of
  the same names.
\<close>

record local_flush_item =
  src_path :: "string option"
  marker_path :: string
  flush_bucket :: "string option"
  flush_kmsid :: "string option"

text \<open>\<^verbatim>\<open>LOCAL_FILE_HANDLE\<close>; \<open>iface_name\<close> is \<^verbatim>\<open>iface.name\<close>.\<close>

record local_file_handle =
  fd :: int
  path :: string
  temp_path :: "string option"
  flush :: "local_flush_item option"
  iface_name :: string

text \<open>\<^verbatim>\<open>LOCAL_LOCATION\<close>.\<close>

record local_location =
  cluster_prefix :: string
  bucket :: string
  kmsid :: string

text \<open>\<^verbatim>\<open>LOCAL_STORAGE\<close>, without the two locks (they are \<open>lockid\<close>s of the world).\<close>

record local_storage =
  delay_ms :: "32 word"
  force_delay :: "32 word"
  force_error :: "32 word"
  verbose :: "32 word"
  fh_ops :: "64 word"
  object_flushes :: "64 word"
  op_count :: "64 word"
  read_ops :: "64 word"
  write_ops :: "64 word"
  fileq :: "local_file_handle list"
  flushq :: "local_flush_item list"

text \<open>
  What the source takes from \<^verbatim>\<open>wiredtiger.h\<close> and from the host's extension API, neither
  of which is part of the sources: three constants, and the configuration parser, seen as
  the result of \<^verbatim>\<open>config_parser_open\<close> on a string.
\<close>

record wt_header =
  WT_NOTFOUND :: int
  WT_SS_OPEN_CREATE :: "32 word"
  WT_SS_OPEN_READONLY :: "32 word"

record wt_config_item =
  item_str :: string
  item_len :: nat

record wt_config_parser =
  parser_get :: "string \<Rightarrow> int \<times> wt_config_item"
  parser_close :: int

type_synonym wt_extension_api = "string \<Rightarrow> int \<times> wt_config_parser"

definition MARKER_NEED_FLUSH :: string where "MARKER_NEED_FLUSH = ''FLUSH_''"
definition MARKER_TEMPORARY :: string where "MARKER_TEMPORARY = ''TEMP_''"

section \<open>Configuration and locations\<close>

text \<open>
  \<^verbatim>\<open>local_config_dup\<close>: the copy \<open>p\<close> holds the first \<open>len\<close> characters of the item; it is
  refused when \<^verbatim>\<open>strstr(p, disallowed)\<close> finds something, and gets the suffix otherwise.
\<close>

definition local_config_dup ::
  "wt_config_item \<Rightarrow> string option \<Rightarrow> string option \<Rightarrow> int + string" where
  "local_config_dup v sfx disallowed =
     (let suffix' = (case sfx of None \<Rightarrow> [] | Some s \<Rightarrow> s);
          n = item_len v + length suffix' + 1;
          p = take (item_len v) (item_str v)
      in case disallowed of
           None \<Rightarrow> Inr (p @ take n suffix')
         | Some d \<Rightarrow>
             if strstr p d \<noteq> None then Inl EINVAL
             else Inr (p @ take n suffix'))"

text \<open>The end of \<^verbatim>\<open>local_location_handle\<close>: the parser is closed on every path.\<close>

definition local_location_handle_done :: "wt_config_parser \<Rightarrow> int \<Rightarrow> int" where
  "local_location_handle_done parser ret =
     (let t_ret = parser_close parser in if t_ret \<noteq> 0 \<and> ret = 0 then t_ret else ret)"

definition local_location_handle ::
  "wt_header \<Rightarrow> wt_extension_api \<Rightarrow> local_storage \<Rightarrow> string
     \<Rightarrow> int \<times> local_location option \<times> local_storage" where
  "local_location_handle h config_parser_open local location_info =
     (let local1 = local\<lparr>op_count := op_count local + 1\<rparr>;
          (ret, parser) = config_parser_open location_info
      in if ret \<noteq> 0 then (ret, None, local1)
         else
           let (ret, v) = parser_get parser ''bucket'' in
           if ret \<noteq> 0 then
             (local_location_handle_done parser (if ret = WT_NOTFOUND h then EINVAL else ret),
              None, local1)
           else if item_len v = 0 then (local_location_handle_done parser EINVAL, None, local1)
           else
             case local_config_dup v None None of
               Inl ret \<Rightarrow> (local_location_handle_done parser ret, None, local1)
             | Inr b \<Rightarrow>
                 let (ret, v) = parser_get parser ''cluster'' in
                 if ret \<noteq> 0 then
                   (local_location_handle_done parser
                      (if ret = WT_NOTFOUND h then EINVAL else ret), None, local1)
                 else
                   case local_config_dup v (Some ''_'') (Some ''_/'') of
                     Inl ret \<Rightarrow> (local_location_handle_done parser ret, None, local1)
                   | Inr cp \<Rightarrow>
                       let (ret, v) = parser_get parser ''kmsid'' in
                       if ret \<noteq> 0 then
                         (local_location_handle_done parser
                            (if ret = WT_NOTFOUND h then EINVAL else ret), None, local1)
                       else
                         case local_config_dup v None None of
                           Inl ret \<Rightarrow> (local_location_handle_done parser ret, None, local1)
                         | Inr k \<Rightarrow>
                             (local_location_handle_done parser 0,
                              Some \<lparr>cluster_prefix = cp, bucket = b, kmsid = k\<rparr>, local1))"

text \<open>
  \<^verbatim>\<open>local_location_path\<close>: \<^verbatim>\<open>snprintf(p, len, "%s/%s%s%s", bucket, marker, cluster_prefix, name)\<close>
  into a buffer of exactly the length needed. It fails only when the allocation fails.
\<close>

definition local_location_path :: "local_location \<Rightarrow> string \<Rightarrow> string option \<Rightarrow> string" where
  "local_location_path location nm marker =
     (let marker' = (case marker of None \<Rightarrow> [] | Some m \<Rightarrow> m)
      in bucket location @ ''/'' @ marker' @ cluster_prefix location @ nm)"

section \<open>The flush queue\<close>

definition local_delay :: "local_storage \<Rightarrow> world \<Rightarrow> int \<times> world" where
  "local_delay local w =
     (let w1 = (if force_delay local \<noteq> 0
                   \<and> object_flushes local mod ucast (force_delay local) = 0
                then sys_select w (unat (delay_ms local div 1000))
                       (unat ((delay_ms local mod 1000) * 1000))
                else w);
          ret = (if force_error local \<noteq> 0
                   \<and> object_flushes local mod ucast (force_error local) = 0
                 then ENETUNREACH else 0)
      in (ret, w1))"

text \<open>
  The last statement of \<^verbatim>\<open>local_flush_one\<close>, reached when the function has not returned
  before: the marker file is unlinked if \<open>ret\<close> is still 0.
\<close>

definition local_flush_one_unlink ::
  "int \<Rightarrow> local_storage \<Rightarrow> world \<Rightarrow> local_flush_item \<Rightarrow> int \<times> local_storage \<times> world" where
  "local_flush_one_unlink ret local w item =
     (if ret = 0 then
        (let (r, w1) = sys_unlink w (marker_path item)
         in if r < 0 then (errno w1, local, w1) else (r, local, w1))
      else (ret, local, w))"

definition local_flush_one ::
  "local_storage \<Rightarrow> world \<Rightarrow> local_flush_item \<Rightarrow> crash + (int \<times> local_storage \<times> world)" where
  "local_flush_one local w item =
     (case src_path item of
        None \<Rightarrow> Inl NullDereference
      | Some sp \<Rightarrow>
          (case strrchr sp CHR ''/'' of
             None \<Rightarrow> Inr (local_flush_one_unlink (errno w) local w item)
           | Some object_name \<Rightarrow>
               let local1 = local\<lparr>object_flushes := object_flushes local + 1\<rparr>;
                   (ret, w1) = local_delay local1 w
               in if ret \<noteq> 0 then Inr (ret, local1, w1)
                  else Inr (local_flush_one_unlink ret local1 w1 item)))"

text \<open>
  The test at the head of the loop body of \<^verbatim>\<open>local_flush\<close>: \<open>Inr True\<close> when the item is
  passed over (\<^verbatim>\<open>continue\<close>).
\<close>

definition local_flush_skip ::
  "string option \<Rightarrow> string option \<Rightarrow> local_flush_item \<Rightarrow> crash + bool" where
  "local_flush_skip match nm item =
     (case match of
        None \<Rightarrow> Inr False
      | Some m \<Rightarrow>
          (case src_path item of
             None \<Rightarrow> Inl NullDereference
           | Some sp \<Rightarrow>
               (case nm of
                  Some n \<Rightarrow> Inr (sp \<noteq> m)
                | None \<Rightarrow> Inr (\<not> strncmp_eq sp m (length m)))))"

text \<open>
  \<^verbatim>\<open>TAILQ_FOREACH_SAFE\<close> over the flush queue. \<open>kept\<close> holds the items already passed
  over, the fourth argument the items still to visit; the queue of the storage source
  is \<open>kept\<close> followed by the items to visit, and \<^verbatim>\<open>TAILQ_REMOVE\<close> drops the current one.
\<close>

fun local_flush_loop ::
  "string option \<Rightarrow> string option \<Rightarrow> local_flush_item list \<Rightarrow> local_flush_item list
     \<Rightarrow> int \<Rightarrow> local_storage \<Rightarrow> world \<Rightarrow> crash + (int \<times> local_storage \<times> world)" where
  "local_flush_loop match nm kept [] ret local w = Inr (ret, local, w)"
| "local_flush_loop match nm kept (item # rest) ret local w =
     (case local_flush_skip match nm item of
        Inl c \<Rightarrow> Inl c
      | Inr skip \<Rightarrow>
          if skip then local_flush_loop match nm (kept @ [item]) rest ret local w
          else
            (case local_flush_one local w item of
               Inl c \<Rightarrow> Inl c
             | Inr (t_ret, local1, w1) \<Rightarrow>
                 local_flush_loop match nm kept rest
                   (if t_ret \<noteq> 0 \<and> ret = 0 then t_ret else ret)
                   (local1\<lparr>flushq := kept @ rest\<rparr>) w1))"

definition local_flush ::
  "local_storage \<Rightarrow> world \<Rightarrow> local_location option \<Rightarrow> string option
     \<Rightarrow> crash + (int \<times> local_storage \<times> world)" where
  "local_flush local w location_handle nm =
     (if location_handle = None \<and> nm \<noteq> None then Inr (EINVAL, local, w)
      else
        let local1 = local\<lparr>op_count := op_count local + 1\<rparr>;
            match = (case location_handle of
                       None \<Rightarrow> None
                     | Some location \<Rightarrow>
                         Some (local_location_path location
                                 (case nm of None \<Rightarrow> [] | Some n \<Rightarrow> n) None));
            (ret, w1) = pthread_rwlock_wrlock w FLUSH_LOCK
        in if ret \<noteq> 0 then Inr (ret, local1, w1)
           else
             (case local_flush_loop match nm [] (flushq local1) 0 local1 w1 of
                Inl c \<Rightarrow> Inl c
              | Inr (ret, local2, w2) \<Rightarrow>
                  let (t_ret, w3) = pthread_rwlock_unlock w2 FLUSH_LOCK
                  in Inr (if t_ret \<noteq> 0 \<and> ret = 0 then t_ret else ret, local2, w3)))"

section \<open>Listing\<close>

text \<open>
  The body of the loop of \<^verbatim>\<open>local_location_list_internal\<close> for one directory entry:
  \<open>None\<close> when the entry is passed over (\<^verbatim>\<open>continue\<close>), the name to store otherwise.
  \<open>pfx\<close> is the caller's \<^verbatim>\<open>prefix\<close>.
\<close>

definition local_location_list_entry ::
  "local_location \<Rightarrow> string option \<Rightarrow> string option \<Rightarrow> string \<Rightarrow> string option" where
  "local_location_list_entry location marker pfx d_name =
     (let cluster_len = length (cluster_prefix location);
          marker_len = (case marker of None \<Rightarrow> 0 | Some m \<Rightarrow> length m);
          prefix_len = (case pfx of None \<Rightarrow> 0 | Some p \<Rightarrow> length p)
      in if d_name = ''.'' \<or> d_name = ''..'' then None
         else
           case (if marker_len = 0 then
                   (if strncmp_eq d_name MARKER_TEMPORARY (length MARKER_TEMPORARY)
                       \<or> strncmp_eq d_name MARKER_NEED_FLUSH (length MARKER_NEED_FLUSH)
                    then None else Some d_name)
                 else
                   (case marker of
                      None \<Rightarrow> None
                    | Some m \<Rightarrow>
                        if \<not> strncmp_eq d_name m marker_len then None
                        else Some (drop marker_len d_name))) of
             None \<Rightarrow> None
           | Some basename \<Rightarrow>
               if \<not> strncmp_eq basename (cluster_prefix location) cluster_len then None
               else
                 (let basename' = drop cluster_len basename
                  in case pfx of
                       None \<Rightarrow> Some basename'
                     | Some p \<Rightarrow>
                         if \<not> strncmp_eq basename' p prefix_len then None
                         else Some basename'))"

text \<open>
  The loop itself, over the names \<^verbatim>\<open>readdir\<close> still has to deliver. \<open>count\<close> is the
  \<^verbatim>\<open>uint32_t\<close> of the source; \<^verbatim>\<open>entries[count] = strdup(basename)\<close> writes the slot after
  the last one written, which is the end of the list as long as \<open>count\<close> has not wrapped.
\<close>

fun local_location_list_loop ::
  "local_location \<Rightarrow> string option \<Rightarrow> string option \<Rightarrow> 32 word \<Rightarrow> string list
     \<Rightarrow> string list \<Rightarrow> 32 word \<Rightarrow> string list \<times> 32 word" where
  "local_location_list_loop location marker pfx limit [] entries count = (entries, count)"
| "local_location_list_loop location marker pfx limit (d_name # ds) entries count =
     (if limit = 0 \<or> count < limit then
        (case local_location_list_entry location marker pfx d_name of
           None \<Rightarrow> local_location_list_loop location marker pfx limit ds entries count
         | Some basename \<Rightarrow>
             local_location_list_loop location marker pfx limit ds
               (entries @ [basename]) (count + 1))
      else (entries, count))"

definition local_location_list_internal ::
  "world \<Rightarrow> local_location \<Rightarrow> string option \<Rightarrow> string option \<Rightarrow> 32 word
     \<Rightarrow> int \<times> string list \<times> 32 word \<times> world" where
  "local_location_list_internal w location marker pfx limit =
     (case sys_opendir w (bucket location) of
        (None, w1) \<Rightarrow> (if errno w1 = 0 then EINVAL else errno w1, [], 0, w1)
      | (Some ds, w1) \<Rightarrow>
          (let (entries, count) = local_location_list_loop location marker pfx limit ds [] 0
           in (0, entries, count, w1)))"

definition local_location_list ::
  "local_storage \<Rightarrow> world \<Rightarrow> local_location \<Rightarrow> string option \<Rightarrow> 32 word
     \<Rightarrow> int \<times> string list \<times> 32 word \<times> local_storage \<times> world" where
  "local_location_list local w location pfx limit =
     (let (ret, dirlist, count, w1) = local_location_list_internal w location None pfx limit
      in (ret, dirlist, count, local\<lparr>op_count := op_count local + 1\<rparr>, w1))"

section \<open>Opening and closing objects\<close>

text \<open>
  \<^verbatim>\<open>local_file_close_internal\<close>. The handle is a pointer; it is read (\<^verbatim>\<open>local_fh->fd\<close>)
  without a test, so a NULL handle ends the execution.
\<close>

definition local_file_close_internal ::
  "world \<Rightarrow> local_file_handle option \<Rightarrow> bool \<Rightarrow> crash + (int \<times> world)" where
  "local_file_close_internal w local_fh final =
     (case local_fh of
        None \<Rightarrow> Inl NullDereference
      | Some fh \<Rightarrow>
          (let (r, w1) = sys_close w (fd fh);
               ret = (if r < 0 then errno w1 else 0)
           in if \<not> final \<and> ret = 0 then
                (case temp_path fh of
                   None \<Rightarrow> Inr (ret, w1)
                 | Some tp \<Rightarrow>
                     (let (r2, w2) = sys_rename w1 tp (path fh)
                      in Inr (if r2 < 0 then errno w2 else r2, w2)))
              else Inr (ret, w1)))"

text \<open>
  The middle of \<^verbatim>\<open>local_file_close\<close>: with \<open>ret\<close> the result of unlocking the handle
  queue, the flush item of the handle goes to the head of the flush queue, and then gets
  its \<open>src_path\<close> (through the pointer, so the queued item changes).
\<close>

definition local_file_close_enqueue ::
  "int \<Rightarrow> local_storage \<Rightarrow> world \<Rightarrow> local_file_handle
     \<Rightarrow> int \<times> local_file_handle \<times> local_storage \<times> world" where
  "local_file_close_enqueue ret local w fh =
     (case flush fh of
        None \<Rightarrow> (ret, fh, local, w)
      | Some item \<Rightarrow>
          if ret \<noteq> 0 then (ret, fh, local, w)
          else
            (let (ret1, w1) = pthread_rwlock_wrlock w FLUSH_LOCK
             in if ret1 \<noteq> 0 then (ret1, fh, local, w1)
                else
                  (let local1 = local\<lparr>flushq := item # flushq local\<rparr>;
                       fh1 = fh\<lparr>flush := None\<rparr>;
                       (ret2, w2) = pthread_rwlock_unlock w1 FLUSH_LOCK
                   in if ret2 \<noteq> 0 then (ret2, fh1, local1, w2)
                      else (0, fh1,
                            local1\<lparr>flushq := item\<lparr>src_path := Some (path fh)\<rparr>
                                                # tl (flushq local1)\<rparr>, w2))))"

definition local_file_close ::
  "local_storage \<Rightarrow> world \<Rightarrow> local_file_handle \<Rightarrow> crash + (int \<times> local_storage \<times> world)" where
  "local_file_close local w fh =
     (let local1 = local\<lparr>fh_ops := fh_ops local + 1\<rparr>;
          (ret, w1) = pthread_rwlock_wrlock w FILE_HANDLE_LOCK
      in if ret \<noteq> 0 then Inr (ret, local1, w1)
         else
           (let local2 = local1\<lparr>fileq := remove1 fh (fileq local1)\<rparr>;
                (ret, w2) = pthread_rwlock_unlock w1 FILE_HANDLE_LOCK;
                (ret, fh1, local3, w3) = local_file_close_enqueue ret local2 w2 fh
            in case local_file_close_internal w3 (Some fh1) False of
                 Inl c \<Rightarrow> Inl c
               | Inr (t_ret, w4) \<Rightarrow>
                   Inr (if t_ret \<noteq> 0 \<and> ret = 0 then t_ret else ret, local3, w4)))"

text \<open>The label \<^verbatim>\<open>err\<close> of \<^verbatim>\<open>local_open\<close>: the handle is closed as at termination.\<close>

definition local_open_err ::
  "int \<Rightarrow> local_storage \<Rightarrow> world \<Rightarrow> local_file_handle option
     \<Rightarrow> crash + (int \<times> local_file_handle option \<times> local_storage \<times> world)" where
  "local_open_err ret local w local_fh =
     (case local_file_close_internal w local_fh True of
        Inl c \<Rightarrow> Inl c
      | Inr (t_ret, w1) \<Rightarrow> Inr (ret, None, local, w1))"

text \<open>
  \<^verbatim>\<open>local_open\<close> from the comment ``Set file mode so it can only be reopened as readonly''
  on: the file is opened, the handle filled in and put at the head of the handle queue.
\<close>

definition local_open_file ::
  "local_storage \<Rightarrow> world \<Rightarrow> local_file_handle \<Rightarrow> string \<Rightarrow> oflags \<Rightarrow> string
     \<Rightarrow> crash + (int \<times> local_file_handle option \<times> local_storage \<times> world)" where
  "local_open_file local w local_fh open_name oflgs nm =
     (let (d, w1) = sys_open w open_name oflgs 292
      in if d < 0 then local_open_err (errno w1) local w1 (Some local_fh)
         else
           (let fh1 = local_fh\<lparr>fd := d, iface_name := nm\<rparr>;
                (ret, w2) = pthread_rwlock_wrlock w1 FILE_HANDLE_LOCK
            in if ret \<noteq> 0 then local_open_err ret local w2 (Some fh1)
               else
                 (let local1 = local\<lparr>fileq := fh1 # fileq local\<rparr>;
                      (ret, w3) = pthread_rwlock_unlock w2 FILE_HANDLE_LOCK
                  in if ret \<noteq> 0 then local_open_err ret local1 w3 (Some fh1)
                     else Inr (0, Some fh1, local1, w3))))"

text \<open>
  \<^verbatim>\<open>local_open\<close>. The handle starts as NULL and is allocated (zeroed, so its descriptor is
  0) only after the flags have been looked at. The modes 0666 and 0444 are 438 and 292.
\<close>

definition local_open ::
  "wt_header \<Rightarrow> local_storage \<Rightarrow> world \<Rightarrow> local_location \<Rightarrow> string \<Rightarrow> 32 word
     \<Rightarrow> crash + (int \<times> local_file_handle option \<times> local_storage \<times> world)" where
  "local_open h local w location nm flags =
     (let local1 = local\<lparr>op_count := op_count local + 1\<rparr>
      in if flags \<noteq> WT_SS_OPEN_CREATE h \<and> flags \<noteq> WT_SS_OPEN_READONLY h then
           local_open_err EINVAL local1 w None
         else
           (let oflgs = (if flags = WT_SS_OPEN_CREATE h then O_WRONLY_CREAT else O_RDONLY);
                fh0 = \<lparr>fd = 0, path = local_location_path location nm None,
                       temp_path = None, flush = None, iface_name = []\<rparr>
            in if flags = WT_SS_OPEN_CREATE h then
                 (let item0 = \<lparr>src_path = None,
                               marker_path =
                                 local_location_path location nm (Some MARKER_NEED_FLUSH),
                               flush_bucket = None, flush_kmsid = None\<rparr>;
                      fh1 = fh0\<lparr>flush := Some item0\<rparr>;
                      (d, w1) = sys_open w (marker_path item0) O_WRONLY_CREAT 438
                  in if d < 0 then local_open_err (errno w1) local1 w1 (Some fh1)
                     else
                       (let (r, w2) = sys_close w1 d
                        in if r < 0 then local_open_err (errno w2) local1 w2 (Some fh1)
                           else
                             (let item1 = item0\<lparr>flush_bucket := Some (bucket location),
                                                flush_kmsid := Some (kmsid location)\<rparr>;
                                  fh2 = fh1\<lparr>flush := Some item1,
                                            temp_path :=
                                              Some (local_location_path location nm
                                                      (Some MARKER_TEMPORARY))\<rparr>
                              in local_open_file local1 w2 fh2
                                   (local_location_path location nm (Some MARKER_TEMPORARY))
                                   oflgs nm)))
               else local_open_file local1 w fh0 (path fh0) oflgs nm))"

section \<open>Reading and writing\<close>

text \<open>
  The loops of \<^verbatim>\<open>local_file_read\<close> and \<^verbatim>\<open>local_file_write\<close>. Nothing bounds the number of
  their iterations, so they are partial functions: \<open>None\<close> is the loop that never ends.
  \<open>offset\<close> is the \<^verbatim>\<open>wt_off_t\<close> (an integer here), \<open>len\<close> the \<^verbatim>\<open>size_t\<close>.
\<close>

partial_function (option) local_file_read_loop ::
  "int \<Rightarrow> int \<Rightarrow> world \<Rightarrow> int \<Rightarrow> 64 word \<Rightarrow> byte list \<Rightarrow> (int \<times> byte list \<times> world) option" where
  "local_file_read_loop d ret w offset len buf =
     (if ret = 0 \<and> 0 < len then
        (case sys_pread w d len offset of
           (nbytes, dat, w1) \<Rightarrow>
             if nbytes < 0 then local_file_read_loop d (errno w1) w1 offset len buf
             else local_file_read_loop d ret w1 (offset + nbytes)
                    (len - word_of_int nbytes) (buf @ dat))
      else Some (ret, buf, w))"

definition local_file_read ::
  "local_storage \<Rightarrow> world \<Rightarrow> local_file_handle \<Rightarrow> int \<Rightarrow> 64 word
     \<Rightarrow> (int \<times> byte list \<times> local_storage \<times> world) option" where
  "local_file_read local w fh offset len =
     map_option (\<lambda>(ret, buf, w1). (ret, buf, local\<lparr>read_ops := read_ops local + 1\<rparr>, w1))
       (local_file_read_loop (fd fh) 0 w offset len [])"

partial_function (option) local_file_write_loop ::
  "int \<Rightarrow> int \<Rightarrow> world \<Rightarrow> int \<Rightarrow> 64 word \<Rightarrow> byte list \<Rightarrow> (int \<times> world) option" where
  "local_file_write_loop d ret w offset len addr =
     (if ret = 0 \<and> 0 < len then
        (case sys_pwrite w d (take (unat len) addr) offset of
           (nbytes, w1) \<Rightarrow>
             if nbytes < 0 then local_file_write_loop d (errno w1) w1 offset len addr
             else local_file_write_loop d ret w1 (offset + nbytes)
                    (len - word_of_int nbytes) (drop (nat nbytes) addr))
      else Some (ret, w))"

definition local_file_write ::
  "local_storage \<Rightarrow> world \<Rightarrow> local_file_handle \<Rightarrow> int \<Rightarrow> 64 word \<Rightarrow> byte list
     \<Rightarrow> (int \<times> local_storage \<times> world) option" where
  "local_file_write local w fh offset len buf =
     map_option (\<lambda>(ret, w1). (ret, local\<lparr>write_ops := write_ops local + 1\<rparr>, w1))
       (local_file_write_loop (fd fh) 0 w offset len buf)"

section \<open>Notions used to state the properties\<close>

text \<open>The string \<^verbatim>\<open>match\<close> that \<^verbatim>\<open>local_flush\<close> builds from its arguments.\<close>

definition flush_match :: "local_location option \<Rightarrow> string option \<Rightarrow> string option" where
  "flush_match location_handle nm =
     (case location_handle of
        None \<Rightarrow> None
      | Some location \<Rightarrow>
          Some (local_location_path location (case nm of None \<Rightarrow> [] | Some n \<Rightarrow> n) None))"

text \<open>
  The records a drain is meant to select, in the words of the specification: all of them
  without a location; with a location and a name, the record whose source path is the
  path of that object; with a location only, the records whose source path starts with
  the bucket, a slash and the cluster prefix.
\<close>

definition flush_selects ::
  "local_location option \<Rightarrow> string option \<Rightarrow> local_flush_item \<Rightarrow> bool" where
  "flush_selects location_handle nm item =
     (case location_handle of
        None \<Rightarrow> True
      | Some location \<Rightarrow>
          (case src_path item of
             None \<Rightarrow> False
           | Some sp \<Rightarrow>
               (case nm of
                  Some n \<Rightarrow> sp = bucket location @ ''/'' @ cluster_prefix location @ n
                | None \<Rightarrow> prefix (bucket location @ ''/'' @ cluster_prefix location) sp)))"

text \<open>The first error of a run of return values, 0 when there is none.\<close>

definition first_error :: "int list \<Rightarrow> int" where
  "first_error codes = (case filter (\<lambda>c. c \<noteq> 0) codes of [] \<Rightarrow> 0 | c # cs \<Rightarrow> c)"

text \<open>What \<^verbatim>\<open>local_flush_one\<close> returns for each of a list of items, called in turn.\<close>

fun local_flush_codes :: "local_storage \<Rightarrow> world \<Rightarrow> local_flush_item list \<Rightarrow> int list" where
  "local_flush_codes l w [] = []"
| "local_flush_codes l w (item # rest) =
     (case local_flush_one l w item of
        Inl c \<Rightarrow> []
      | Inr (t, l1, w1) \<Rightarrow> t # local_flush_codes l1 w1 rest)"

text \<open>The test of \<^verbatim>\<open>local_delay\<close> for the simulated error, on a flush count \<open>c\<close>.\<close>

definition error_due :: "32 word \<Rightarrow> 64 word \<Rightarrow> bool" where
  "error_due N c = (N \<noteq> 0 \<and> c mod ucast N = 0)"

text \<open>
  The marker paths that a drain of the items \<open>ms\<close> removes from the disk, when the flush
  count is \<open>c\<close> before it: those of the items that do not get the simulated error and
  whose \<^verbatim>\<open>unlink\<close> the system lets through.
\<close>

definition unlinked_markers ::
  "32 word \<Rightarrow> (syscall \<Rightarrow> int) \<Rightarrow> 64 word \<Rightarrow> local_flush_item list \<Rightarrow> string set" where
  "unlinked_markers N F c ms =
     {marker_path (ms ! k) |k. k < length ms
        \<and> \<not> error_due N (c + of_nat (Suc k))
        \<and> F (SysUnlink (marker_path (ms ! k))) = 0}"

text \<open>
  The directory entries an ordinary listing is meant to show, in the words of the
  specification: not the two pseudo-entries, not a name with a reserved tag, a name
  that starts with the cluster prefix and, behind it, with the caller's prefix.
\<close>

definition listed :: "local_location \<Rightarrow> string option \<Rightarrow> string \<Rightarrow> bool" where
  "listed location pfx d_name =
     (d_name \<noteq> ''.'' \<and> d_name \<noteq> ''..''
      \<and> \<not> prefix ''TEMP_'' d_name \<and> \<not> prefix ''FLUSH_'' d_name
      \<and> prefix (cluster_prefix location) d_name
      \<and> (case pfx of
            None \<Rightarrow> True
          | Some p \<Rightarrow> prefix p (drop (length (cluster_prefix location)) d_name)))"

text \<open>
  A descriptor positioned at or behind the end of its file, in a system that lets every
  call through.
\<close>

definition at_eof :: "int \<Rightarrow> world \<Rightarrow> int \<Rightarrow> bool" where
  "at_eof d w offset =
     (case fds w d of
        None \<Rightarrow> False
      | Some i \<Rightarrow> (\<forall>c. fault w c = 0) \<and> 0 \<le> offset \<and> length (inodes w i) \<le> nat offset)"

section \<open>Concrete states\<close>

text \<open>
  The values of \<^verbatim>\<open>wiredtiger.h\<close>, a configuration parser that answers from a list of
  pairs (the host's parser is consumed as key/value lookups only), a system with the
  three standard descriptors and no files in which every call goes through, and a
  storage source just initialised.
\<close>

definition wiredtiger_h :: wt_header where
  "wiredtiger_h = \<lparr>WT_NOTFOUND = -31803, WT_SS_OPEN_CREATE = 1, WT_SS_OPEN_READONLY = 2\<rparr>"

definition pairs_parser :: "(string \<times> string) list \<Rightarrow> wt_extension_api" where
  "pairs_parser kvs location_info =
     (0, \<lparr>parser_get = (\<lambda>k. case map_of kvs k of
                               None \<Rightarrow> (WT_NOTFOUND wiredtiger_h, \<lparr>item_str = [], item_len = 0\<rparr>)
                             | Some v \<Rightarrow> (0, \<lparr>item_str = v, item_len = length v\<rparr>)),
          parser_close = 0\<rparr>)"

definition quiet_world :: world where
  "quiet_world = \<lparr>files = Map.empty, inodes = (\<lambda>i. []), next_ino = 1,
                   fds = [0 \<mapsto> 0, 1 \<mapsto> 0, 2 \<mapsto> 0], next_fd = 3, dirs = (\<lambda>p. []),
                   errno = 0, trace = [], fault = (\<lambda>c. 0)\<rparr>"

definition fresh_storage :: local_storage where
  "fresh_storage = \<lparr>delay_ms = 0, force_delay = 0, force_error = 0, verbose = 0, fh_ops = 0,
                     object_flushes = 0, op_count = 0, read_ops = 0, write_ops = 0,
                     fileq = [], flushq = []\<rparr>"

definition EIO :: int where "EIO = 5"

text \<open>The location of cluster \<open>c\<close> in bucket \<open>b\<close>, and the flush item of an object closed there.\<close>

definition location_c :: local_location where
  "location_c = \<lparr>cluster_prefix = ''c_'', bucket = ''b'', kmsid = ''k''\<rparr>"

definition pending :: "string \<Rightarrow> string \<Rightarrow> local_flush_item" where
  "pending cluster nm = \<lparr>src_path = Some (''b/'' @ cluster @ nm),
                         marker_path = ''b/FLUSH_'' @ cluster @ nm,
                         flush_bucket = Some ''b'', flush_kmsid = Some ''k''\<rparr>"

text \<open>
  Three objects wait for their flush, two of cluster \<open>c\<close> and one of cluster \<open>d\<close>; every
  second flush is to fail.
\<close>

definition three_pending :: local_storage where
  "three_pending = fresh_storage\<lparr>force_error := 2,
       flushq := [pending ''c_'' ''x'', pending ''c_'' ''y'', pending ''d_'' ''z'']\<rparr>"

definition three_markers :: world where
  "three_markers = quiet_world\<lparr>files := [''b/c_x'' \<mapsto> 1, ''b/FLUSH_c_x'' \<mapsto> 2,
       ''b/c_y'' \<mapsto> 3, ''b/FLUSH_c_y'' \<mapsto> 4, ''b/d_z'' \<mapsto> 5, ''b/FLUSH_d_z'' \<mapsto> 6],
       next_ino := 7\<rparr>"

text \<open>
  An object \<open>x\<close> has been created and written and is about to be closed, in a system in
  which the \<^verbatim>\<open>rename\<close> of its temporary file fails with \<^verbatim>\<open>EIO\<close>.
\<close>

definition creating_x :: local_file_handle where
  "creating_x = \<lparr>fd = 3, path = ''b/c_x'', temp_path = Some ''b/TEMP_c_x'',
                  flush = Some \<lparr>src_path = None, marker_path = ''b/FLUSH_c_x'',
                                flush_bucket = Some ''b'', flush_kmsid = Some ''k''\<rparr>,
                  iface_name = ''x''\<rparr>"

definition storage_creating_x :: local_storage where
  "storage_creating_x = fresh_storage\<lparr>op_count := 1, fileq := [creating_x]\<rparr>"

definition world_rename_fails :: world where
  "world_rename_fails = quiet_world\<lparr>files := [''b/FLUSH_c_x'' \<mapsto> 1, ''b/TEMP_c_x'' \<mapsto> 2],
       next_ino := 3, fds := (fds quiet_world)(3 \<mapsto> 2), next_fd := 4,
       fault := (\<lambda>c. if c = SysRename ''b/TEMP_c_x'' ''b/c_x'' then EIO else 0)\<rparr>"

text \<open>A bucket directory as \<^verbatim>\<open>readdir\<close> enumerates it.\<close>

definition world_listing :: world where
  "world_listing = quiet_world\<lparr>dirs := (\<lambda>p. if p = ''b''
       then [''.'', ''..'', ''c_ab'', ''TEMP_c_ac'', ''FLUSH_c_ab'', ''d_ab'', ''c_b'',
             ''c_a1'', ''c_a2'']
       else [])\<rparr>"

text \<open>The object \<open>x\<close> of cluster \<open>c\<close> is stored and holds no bytes; then it is open for reading.\<close>

definition world_empty_object :: world where
  "world_empty_object = quiet_world\<lparr>files := [''b/c_x'' \<mapsto> 1], next_ino := 2\<rparr>"

definition reading_x :: local_file_handle where
  "reading_x = \<lparr>fd = 3, path = ''b/c_x'', temp_path = None, flush = None, iface_name = ''x''\<rparr>"

definition storage_reading_x :: local_storage where
  "storage_reading_x = fresh_storage\<lparr>op_count := 1, fileq := [reading_x]\<rparr>"

definition world_reading_x :: world where
  "world_reading_x = world_empty_object\<lparr>fds := (fds quiet_world)(3 \<mapsto> 1), next_fd := 4,
       trace := [SysOpen ''b/c_x'' O_RDONLY 292, SysWrlock FILE_HANDLE_LOCK,
                 SysUnlock FILE_HANDLE_LOCK]\<rparr>"

section \<open>Facts about the environment and the C strings\<close>

lemmas sys_defs = sys_open_def sys_close_def sys_unlink_def sys_rename_def sys_select_def
  logged_def pthread_rwlock_wrlock_def pthread_rwlock_unlock_def

lemma strrchr_None: "strrchr s c = None \<longleftrightarrow> c \<notin> set s"
  by (induction s) (auto split: option.splits)

lemma strncmp_eq_prefix: "n = length m \<Longrightarrow> strncmp_eq a m n \<longleftrightarrow> prefix m a"
  unfolding strncmp_eq_def
  by (metis append_eq_conv_conj prefix_def take_all order_refl take_is_prefix)

lemma strstr_found: "strstr s needle \<noteq> None \<longleftrightarrow> (\<exists>a b. s = a @ needle @ b)"
proof (induction s)
  case Nil
  show ?case by auto
next
  case (Cons c cs)
  show ?case
  proof (cases "take (length needle) (c # cs) = needle")
    case True
    then have "c # cs = [] @ needle @ drop (length needle) (c # cs)"
      by (metis append_Nil append_take_drop_id)
    with True show ?thesis by (metis strstr.simps(2) option.distinct(1))
  next
    case False
    have "(\<exists>a b. c # cs = a @ needle @ b) \<longleftrightarrow> (\<exists>a b. cs = a @ needle @ b)"
    proof
      assume "\<exists>a b. c # cs = a @ needle @ b"
      then obtain a b where ab: "c # cs = a @ needle @ b" by blast
      show "\<exists>a b. cs = a @ needle @ b"
      proof (cases a)
        case Nil
        with ab have "take (length needle) (c # cs) = needle" by simp
        with False show ?thesis by simp
      next
        case (Cons x a')
        with ab have "cs = a' @ needle @ b" by simp
        then show ?thesis by blast
      qed
    next
      assume "\<exists>a b. cs = a @ needle @ b"
      then obtain a b where "cs = a @ needle @ b" by blast
      then have "c # cs = (c # a) @ needle @ b" by simp
      then show "\<exists>a b. c # cs = a @ needle @ b" by blast
    qed
    with False Cons.IH show ?thesis by simp
  qed
qed

section \<open>Flush with a name and no location\<close>

text \<open>
  C9. A flush that is given a name but no location returns \<^verbatim>\<open>EINVAL\<close> and changes
  nothing: the storage source (its flush queue and its operation counters) and the
  world (every marker file among its files) are the ones it was given.
\<close>

theorem local_flush_name_without_location:
  "local_flush local w None (Some nm) = Inr (EINVAL, local, w)"
  by (simp add: local_flush_def)

section \<open>Validation of the cluster string\<close>

text \<open>
  \<^verbatim>\<open>local_config_dup\<close> refuses a string exactly when the disallowed string occurs in it
  as a whole; for the cluster that string is \<open>_/\<close>. The comment in the source speaks of
  illegal characters that the suffix \<open>_\<close> may contain, and the suffix cannot contain the
  two-character string.
\<close>

lemma local_config_dup_refuses:
  "local_config_dup v sfx (Some d) = Inl EINVAL
     \<longleftrightarrow> (\<exists>a b. take (item_len v) (item_str v) = a @ d @ b)"
  using strstr_found [of "take (item_len v) (item_str v)" d]
  by (auto simp: local_config_dup_def Let_def)

text \<open>
  C3. Location-open is to reject every cluster string that contains a path separator or
  the separator that ends a tag. The code does not: the cluster \<open>a_b\<close> is accepted and
  gives the cluster prefix \<open>a_b_\<close>, and so is the cluster \<open>a/b\<close>.
\<close>

theorem local_location_handle_accepts_separators:
  "local_location_handle wiredtiger_h
     (pairs_parser [(''bucket'', ''b''), (''cluster'', ''a_b''), (''kmsid'', ''k'')])
     fresh_storage ''bucket=b,cluster=a_b,kmsid=k''
   = (0, Some \<lparr>cluster_prefix = ''a_b_'', bucket = ''b'', kmsid = ''k''\<rparr>,
      fresh_storage\<lparr>op_count := 1\<rparr>)
   \<and> local_location_handle wiredtiger_h
     (pairs_parser [(''bucket'', ''b''), (''cluster'', ''a/b''), (''kmsid'', ''k'')])
     fresh_storage ''bucket=b,cluster=a/b,kmsid=k''
   = (0, Some \<lparr>cluster_prefix = ''a/b_'', bucket = ''b'', kmsid = ''k''\<rparr>,
      fresh_storage\<lparr>op_count := 1\<rparr>)"
  by (simp add: local_location_handle_def local_location_handle_done_def local_config_dup_def
      pairs_parser_def wiredtiger_h_def fresh_storage_def Let_def)

section \<open>The path of an object\<close>

lemma local_location_path_concat:
  "local_location_path location nm None = bucket location @ ''/'' @ cluster_prefix location @ nm"
  "local_location_path location nm (Some marker)
     = bucket location @ ''/'' @ marker @ cluster_prefix location @ nm"
  by (simp_all add: local_location_path_def)

text \<open>
  Clusters without the separator \<open>_\<close> keep the paths of different objects apart, whatever
  the marker.
\<close>

lemma split_at_separator:
  assumes "x \<notin> set a" and "x \<notin> set b" and "a @ x # r = b @ x # s"
  shows "a = b \<and> r = s"
  using assms
proof (induction a arbitrary: b)
  case Nil
  then show ?case by (cases b) auto
next
  case (Cons y a)
  then show ?case by (cases b) auto
qed

lemma local_location_path_separated:
  assumes "CHR ''_'' \<notin> set c1" and "CHR ''_'' \<notin> set c2"
    and "local_location_path \<lparr>cluster_prefix = c1 @ ''_'', bucket = b, kmsid = k1\<rparr> n1 marker
         = local_location_path \<lparr>cluster_prefix = c2 @ ''_'', bucket = b, kmsid = k2\<rparr> n2 marker"
  shows "c1 = c2 \<and> n1 = n2"
proof -
  have "c1 @ CHR ''_'' # n1 = c2 @ CHR ''_'' # n2"
    using assms(3) by (simp add: local_location_path_def)
  then show ?thesis
    using assms(1,2) by (rule split_at_separator [rotated 2])
qed

text \<open>
  C5. The path is bucket, slash, marker, cluster prefix and name, one after the other,
  and two different pairs of cluster prefix and name in one bucket are never to give
  the same path. The locations of the clusters \<open>a\<close> and \<open>a_b\<close> are both opened, and the
  object \<open>b_c\<close> of the first has the path of the object \<open>c\<close> of the second.
\<close>

theorem local_location_path_alias:
  "local_location_handle wiredtiger_h
     (pairs_parser [(''bucket'', ''b''), (''cluster'', ''a''), (''kmsid'', ''k'')])
     fresh_storage ''bucket=b,cluster=a,kmsid=k''
   = (0, Some \<lparr>cluster_prefix = ''a_'', bucket = ''b'', kmsid = ''k''\<rparr>,
      fresh_storage\<lparr>op_count := 1\<rparr>)
   \<and> local_location_handle wiredtiger_h
     (pairs_parser [(''bucket'', ''b''), (''cluster'', ''a_b''), (''kmsid'', ''k'')])
     fresh_storage ''bucket=b,cluster=a_b,kmsid=k''
   = (0, Some \<lparr>cluster_prefix = ''a_b_'', bucket = ''b'', kmsid = ''k''\<rparr>,
      fresh_storage\<lparr>op_count := 1\<rparr>)
   \<and> local_location_path \<lparr>cluster_prefix = ''a_'', bucket = ''b'', kmsid = ''k''\<rparr> ''b_c'' None
     = ''b/a_b_c''
   \<and> local_location_path \<lparr>cluster_prefix = ''a_b_'', bucket = ''b'', kmsid = ''k''\<rparr> ''c'' None
     = ''b/a_b_c''"
  by (simp add: local_location_handle_def local_location_handle_done_def local_config_dup_def
      local_location_path_def pairs_parser_def wiredtiger_h_def fresh_storage_def Let_def)

section \<open>Opening an object with other flags\<close>

lemma local_open_invalid_flags:
  assumes "flags \<noteq> WT_SS_OPEN_CREATE h" and "flags \<noteq> WT_SS_OPEN_READONLY h"
  shows "local_open h local w location nm flags = Inl NullDereference"
  using assms
  by (simp add: local_open_def local_open_err_def local_file_close_internal_def)

text \<open>
  C10. An open whose flags are neither \<^verbatim>\<open>WT_SS_OPEN_CREATE\<close> nor \<^verbatim>\<open>WT_SS_OPEN_READONLY\<close>
  is to fail with \<^verbatim>\<open>EINVAL\<close> and leave everything as it was. The code sets \<^verbatim>\<open>EINVAL\<close> and
  jumps to its cleanup while the handle is still NULL, and the cleanup reads the
  descriptor through the handle: with the flags 3 the call does not return.
\<close>

theorem local_open_invalid_flags_null_handle:
  "local_open wiredtiger_h fresh_storage quiet_world location_c ''x'' 3 = Inl NullDereference"
  by (simp add: local_open_invalid_flags wiredtiger_h_def)

section \<open>Draining the flush queue\<close>

lemma skip_selects:
  assumes "src_path item \<noteq> None"
  shows "local_flush_skip (flush_match loc nm) nm item = Inr (\<not> flush_selects loc nm item)"
  using assms
  by (auto simp: local_flush_skip_def flush_match_def flush_selects_def local_location_path_def
      strncmp_eq_prefix split: option.splits)

lemma flush_one_no_crash:
  assumes "src_path item \<noteq> None"
  shows "\<exists>t l1 w1. local_flush_one l w item = Inr (t, l1, w1)"
  using assms
  by (cases "local_flush_one_unlink (errno w) l w item")
     (auto simp: local_flush_one_def Let_def split: option.splits prod.splits intro: prod_cases3)

lemma loop_queue:
  assumes "\<forall>f\<in>set todo. src_path f \<noteq> None"
  shows "\<exists>ret' l' w'. local_flush_loop (flush_match loc nm) nm kept todo ret (l\<lparr>flushq := kept @ todo\<rparr>) w = Inr (ret', l', w')
           \<and> flushq l' = kept @ filter (\<lambda>f. \<not> flush_selects loc nm f) todo"
  using assms
proof (induction todo arbitrary: kept ret l w)
  case Nil
  then show ?case by simp
next
  case (Cons item rest)
  have sp: "src_path item \<noteq> None" and rest: "\<forall>f\<in>set rest. src_path f \<noteq> None"
    using Cons.prems by auto
  show ?case
  proof (cases "flush_selects loc nm item")
    case False
    have "\<exists>ret' l' w'. local_flush_loop (flush_match loc nm) nm (kept @ [item]) rest ret (l\<lparr>flushq := (kept @ [item]) @ rest\<rparr>) w = Inr (ret', l', w')
           \<and> flushq l' = (kept @ [item]) @ filter (\<lambda>f. \<not> flush_selects loc nm f) rest"
      by (rule Cons.IH [OF rest])
    with False sp show ?thesis
      by (simp add: skip_selects)
  next
    case True
    obtain t l1 w1 where one: "local_flush_one (l\<lparr>flushq := kept @ item # rest\<rparr>) w item = Inr (t, l1, w1)"
      using flush_one_no_crash [OF sp] by blast
    have "\<exists>ret' l' w'. local_flush_loop (flush_match loc nm) nm kept rest (if t \<noteq> 0 \<and> ret = 0 then t else ret) (l1\<lparr>flushq := kept @ rest\<rparr>) w1 = Inr (ret', l', w')
           \<and> flushq l' = kept @ filter (\<lambda>f. \<not> flush_selects loc nm f) rest"
      by (rule Cons.IH [OF rest])
    with True sp one show ?thesis
      by (simp add: skip_selects)
  qed
qed

lemma flush_queue:
  assumes lock: "fault w (SysWrlock FLUSH_LOCK) = 0"
    and sp: "\<forall>f\<in>set (flushq l). src_path f \<noteq> None"
    and ok: "\<not> (loc = None \<and> nm \<noteq> None)"
  shows "\<exists>ret l' w'. local_flush l w loc nm = Inr (ret, l', w')
           \<and> flushq l' = filter (\<lambda>f. \<not> flush_selects loc nm f) (flushq l)"
proof -
  let ?l1 = "l\<lparr>op_count := op_count l + 1\<rparr>"
  let ?w1 = "logged w (SysWrlock FLUSH_LOCK)"
  have l1: "?l1 = ?l1\<lparr>flushq := [] @ flushq l\<rparr>" by simp
  obtain r l2 w2 where loop:
    "local_flush_loop (flush_match loc nm) nm [] (flushq l) 0 ?l1 ?w1 = Inr (r, l2, w2)"
    and q: "flushq l2 = [] @ filter (\<lambda>f. \<not> flush_selects loc nm f) (flushq l)"
    using loop_queue [OF sp, of loc nm "[]" 0 ?l1 ?w1] l1 by metis
  have guard: "\<not> (loc = None \<and> (\<exists>y. nm = Some y))"
    using ok by auto
  show ?thesis
    using guard lock loop q
    by (auto simp add: local_flush_def pthread_rwlock_wrlock_def pthread_rwlock_unlock_def
        flush_match_def split: prod.splits)
qed

text \<open>
  C4. Whatever the flush queue holds: a drain with a location and a name removes exactly
  the records whose source path is the path computed from the two, a drain with a
  location only removes exactly the records whose source path starts with the bucket,
  a slash and the cluster prefix of the location, and a drain with neither removes every
  record. (The lock is granted, and the records in the queue have their source path.)
\<close>

theorem local_flush_removes_matching:
  assumes lock: "fault w (SysWrlock FLUSH_LOCK) = 0"
    and sp: "\<forall>f\<in>set (flushq l). src_path f \<noteq> None"
  shows "(\<exists>ret l' w'. local_flush l w (Some loc) (Some n) = Inr (ret, l', w')
            \<and> flushq l' = filter (\<lambda>f. src_path f \<noteq> Some (local_location_path loc n None)) (flushq l))
       \<and> (\<exists>ret l' w'. local_flush l w (Some loc) None = Inr (ret, l', w')
            \<and> flushq l' = filter (\<lambda>f. \<not> (case src_path f of None \<Rightarrow> False
                   | Some s \<Rightarrow> prefix (bucket loc @ ''/'' @ cluster_prefix loc) s)) (flushq l))
       \<and> (\<exists>ret l' w'. local_flush l w None None = Inr (ret, l', w') \<and> flushq l' = [])"
proof -
  have a: "(\<lambda>f. \<not> flush_selects (Some loc) (Some n) f) = (\<lambda>f. src_path f \<noteq> Some (local_location_path loc n None))"
    by (auto simp: flush_selects_def local_location_path_def fun_eq_iff split: option.splits)
  have b: "(\<lambda>f. \<not> flush_selects (Some loc) None f) = (\<lambda>f. \<not> (case src_path f of None \<Rightarrow> False
                   | Some s \<Rightarrow> prefix (bucket loc @ ''/'' @ cluster_prefix loc) s))"
    by (auto simp: flush_selects_def fun_eq_iff split: option.splits)
  have c: "filter (\<lambda>f. \<not> flush_selects None None f) (flushq l) = []"
    by (simp add: flush_selects_def)
  show ?thesis
    using flush_queue [OF lock sp, of "Some loc" "Some n"]
      flush_queue [OF lock sp, of "Some loc" None]
      flush_queue [OF lock sp, of None None]
    unfolding a b c by simp
qed

theorem local_flush_removes_matching_witness:
  "fault three_markers (SysWrlock FLUSH_LOCK) = 0
   \<and> map src_path (flushq three_pending) = [Some ''b/c_x'', Some ''b/c_y'', Some ''b/d_z'']
   \<and> (\<exists>ret l' w'. local_flush three_pending three_markers (Some location_c) (Some ''y'')
                       = Inr (ret, l', w')
          \<and> flushq l' = [pending ''c_'' ''x'', pending ''d_'' ''z''])
   \<and> (\<exists>ret l' w'. local_flush three_pending three_markers (Some location_c) None
                       = Inr (ret, l', w')
          \<and> flushq l' = [pending ''d_'' ''z''])
   \<and> (\<exists>ret l' w'. local_flush three_pending three_markers None None = Inr (ret, l', w')
          \<and> flushq l' = [])"
proof -
  have h1: "fault three_markers (SysWrlock FLUSH_LOCK) = 0"
    by (simp add: three_markers_def quiet_world_def)
  have h2: "\<forall>f\<in>set (flushq three_pending). src_path f \<noteq> None"
    by (simp add: three_pending_def fresh_storage_def pending_def)
  have q1: "filter (\<lambda>f. src_path f \<noteq> Some (local_location_path location_c ''y'' None))
              (flushq three_pending) = [pending ''c_'' ''x'', pending ''d_'' ''z'']"
    by (simp add: three_pending_def fresh_storage_def pending_def location_c_def
        local_location_path_def)
  have q2: "filter (\<lambda>f. \<not> (case src_path f of None \<Rightarrow> False
                   | Some s \<Rightarrow> prefix (bucket location_c @ ''/'' @ cluster_prefix location_c) s))
              (flushq three_pending) = [pending ''d_'' ''z'']"
    by (simp add: three_pending_def fresh_storage_def pending_def location_c_def)
  have h3: "map src_path (flushq three_pending)
              = [Some ''b/c_x'', Some ''b/c_y'', Some ''b/d_z'']"
    by (simp add: three_pending_def fresh_storage_def pending_def)
  show ?thesis
    using h1 h3 local_flush_removes_matching [OF h1 h2, of location_c "''y''"]
    unfolding q1 q2 by blast
qed

lemma flush_one_flushq:
  "local_flush_one (l\<lparr>flushq := q\<rparr>) w f =
     (case local_flush_one l w f of Inl c \<Rightarrow> Inl c | Inr (t, l1, w1) \<Rightarrow> Inr (t, l1\<lparr>flushq := q\<rparr>, w1))"
  by (simp add: local_flush_one_def local_flush_one_unlink_def local_delay_def Let_def
      split: option.splits prod.splits)

lemma flush_codes_flushq:
  "local_flush_codes (l\<lparr>flushq := q\<rparr>) w fs = local_flush_codes l w fs"
proof (induction fs arbitrary: l w)
  case Nil
  show ?case by simp
next
  case (Cons f fs)
  show ?case
    by (cases "local_flush_one l w f") (auto simp: flush_one_flushq Cons.IH)
qed

lemma flush_one_step:
  assumes "src_path f = Some sp" and "CHR ''/'' \<in> set sp"
  shows "\<exists>t w1. local_flush_one l w f = Inr (t, l\<lparr>object_flushes := object_flushes l + 1\<rparr>, w1)
           \<and> fault w1 = fault w
           \<and> (if force_error l \<noteq> 0 \<and> (object_flushes l + 1) mod ucast (force_error l) = 0
              then t = ENETUNREACH \<and> files w1 = files w
              else files w1 = (if fault w (SysUnlink (marker_path f)) = 0
                               then (files w)(marker_path f := None) else files w))"
proof -
  obtain i where i: "strrchr sp CHR ''/'' = Some i"
    using assms(2) strrchr_None [of sp "CHR ''/''"] by (cases "strrchr sp CHR ''/''") auto
  show ?thesis
    using assms(1) i
    by (auto simp: local_flush_one_def local_delay_def local_flush_one_unlink_def sys_unlink_def
        sys_select_def logged_def Let_def ENETUNREACH_def ENOENT_def fun_eq_iff)
qed

lemma unlinked_markers_Nil: "unlinked_markers N F c [] = {}"
  by (simp add: unlinked_markers_def)

lemma unlinked_markers_Cons:
  "unlinked_markers N F c (f # fs) =
     (if \<not> error_due N (c + 1) \<and> F (SysUnlink (marker_path f)) = 0
      then {marker_path f} else {}) \<union> unlinked_markers N F (c + 1) fs"
  (is "?L = ?H \<union> ?T")
proof -
  have shift: "\<And>k. c + 1 + of_nat (Suc k) = c + of_nat (Suc (Suc k))"
    by simp
  let ?ok = "\<lambda>xs k. k < length xs \<and> \<not> error_due N (c + of_nat (Suc k))
                \<and> F (SysUnlink (marker_path (xs ! k))) = 0"
  have L: "?L = {marker_path ((f # fs) ! k) |k. ?ok (f # fs) k}"
    by (simp add: unlinked_markers_def)
  have T: "?T = {marker_path (fs ! k) |k. ?ok (f # fs) (Suc k)}"
    by (simp add: unlinked_markers_def add.assoc)
  have H: "?H = {marker_path ((f # fs) ! k) |k. k = 0 \<and> ?ok (f # fs) k}"
    by auto
  have "{marker_path ((f # fs) ! k) |k. ?ok (f # fs) k}
        = {marker_path ((f # fs) ! k) |k. k = 0 \<and> ?ok (f # fs) k}
          \<union> {marker_path ((f # fs) ! Suc k) |k. ?ok (f # fs) (Suc k)}"
  proof (rule set_eqI, rule iffI)
    fix p assume "p \<in> {marker_path ((f # fs) ! k) |k. ?ok (f # fs) k}"
    then obtain k where k: "p = marker_path ((f # fs) ! k)" "?ok (f # fs) k" by blast
    show "p \<in> {marker_path ((f # fs) ! k) |k. k = 0 \<and> ?ok (f # fs) k}
          \<union> {marker_path ((f # fs) ! Suc k) |k. ?ok (f # fs) (Suc k)}"
    proof (cases k)
      case 0
      with k show ?thesis by blast
    next
      case (Suc j)
      with k show ?thesis by blast
    qed
  next
    fix p assume "p \<in> {marker_path ((f # fs) ! k) |k. k = 0 \<and> ?ok (f # fs) k}
          \<union> {marker_path ((f # fs) ! Suc k) |k. ?ok (f # fs) (Suc k)}"
    then show "p \<in> {marker_path ((f # fs) ! k) |k. ?ok (f # fs) k}" by blast
  qed
  then show ?thesis
    unfolding L T H by simp
qed

lemma flush_one_step':
  assumes "src_path f = Some sp" and "CHR ''/'' \<in> set sp"
  shows "\<exists>t w1. local_flush_one l w f = Inr (t, l\<lparr>object_flushes := object_flushes l + 1\<rparr>, w1)
           \<and> fault w1 = fault w
           \<and> (if error_due (force_error l) (object_flushes l + 1)
              then t = ENETUNREACH \<and> files w1 = files w
              else files w1 = (if fault w (SysUnlink (marker_path f)) = 0
                               then (files w)(marker_path f := None) else files w))"
  using flush_one_step [OF assms, of l w] unfolding error_due_def .


lemma first_error_Cons: "first_error (t # cs) = (if t \<noteq> 0 then t else first_error cs)"
  by (simp add: first_error_def)

lemma loop_drain:
  assumes "\<forall>f\<in>set todo. \<exists>sp. src_path f = Some sp \<and> CHR ''/'' \<in> set sp"
  shows "\<exists>ret' l' w'.
           local_flush_loop (flush_match loc nm) nm kept todo ret l w = Inr (ret', l', w')
         \<and> ret' = (if ret \<noteq> 0 then ret
                   else first_error (local_flush_codes l w (filter (flush_selects loc nm) todo)))
         \<and> length (local_flush_codes l w (filter (flush_selects loc nm) todo))
             = length (filter (flush_selects loc nm) todo)
         \<and> (\<forall>k<length (filter (flush_selects loc nm) todo).
               error_due (force_error l) (object_flushes l + of_nat (Suc k)) \<longrightarrow>
               local_flush_codes l w (filter (flush_selects loc nm) todo) ! k = ENETUNREACH)
         \<and> object_flushes l' = object_flushes l + of_nat (length (filter (flush_selects loc nm) todo))
         \<and> fault w' = fault w
         \<and> files w' = (\<lambda>p. if p \<in> unlinked_markers (force_error l) (fault w) (object_flushes l)
                                    (filter (flush_selects loc nm) todo)
                            then None else files w p)"
  using assms
proof (induction todo arbitrary: kept ret l w)
  case Nil
  show ?case by (simp add: first_error_def unlinked_markers_Nil)
next
  case (Cons item rest)
  obtain sp where sp: "src_path item = Some sp" and slash: "CHR ''/'' \<in> set sp"
    using Cons.prems by auto
  have rest: "\<forall>f\<in>set rest. \<exists>sp. src_path f = Some sp \<and> CHR ''/'' \<in> set sp"
    using Cons.prems by auto
  have spn: "src_path item \<noteq> None" using sp by simp
  let ?ms = "filter (flush_selects loc nm) rest"
  show ?case
  proof (cases "flush_selects loc nm item")
    case False
    have step: "local_flush_loop (flush_match loc nm) nm kept (item # rest) ret l w
                = local_flush_loop (flush_match loc nm) nm (kept @ [item]) rest ret l w"
      using False by (simp add: skip_selects [OF spn])
    have ms: "filter (flush_selects loc nm) (item # rest) = ?ms"
      using False by simp
    show ?thesis
      unfolding step ms by (rule Cons.IH [OF rest])
  next
    case True
    let ?l1 = "l\<lparr>object_flushes := object_flushes l + 1\<rparr>"
    obtain t w1 where one: "local_flush_one l w item = Inr (t, ?l1, w1)"
      and fw: "fault w1 = fault w"
      and eff: "if error_due (force_error l) (object_flushes l + 1)
                then t = ENETUNREACH \<and> files w1 = files w
                else files w1 = (if fault w (SysUnlink (marker_path item)) = 0
                                 then (files w)(marker_path item := None) else files w)"
      using flush_one_step' [OF sp slash, of l w] by blast
    let ?l2 = "?l1\<lparr>flushq := kept @ rest\<rparr>"
    let ?r2 = "if t \<noteq> 0 \<and> ret = 0 then t else ret"
    let ?cs = "local_flush_codes ?l1 w1 ?ms"
    have cs2: "local_flush_codes ?l2 w1 ?ms = ?cs"
      by (rule flush_codes_flushq)
    obtain ret' l' w' where
      run: "local_flush_loop (flush_match loc nm) nm kept rest ?r2 ?l2 w1 = Inr (ret', l', w')"
      and r: "ret' = (if ?r2 \<noteq> 0 then ?r2 else first_error ?cs)"
      and len: "length ?cs = length ?ms"
      and hits: "\<forall>k<length ?ms. error_due (force_error l) (object_flushes l + 1 + of_nat (Suc k))
                   \<longrightarrow> ?cs ! k = ENETUNREACH"
      and cnt: "object_flushes l' = object_flushes l + 1 + of_nat (length ?ms)"
      and fw': "fault w' = fault w1"
      and fl: "files w' = (\<lambda>p. if p \<in> unlinked_markers (force_error l) (fault w1)
                                       (object_flushes l + 1) ?ms
                               then None else files w1 p)"
      using Cons.IH [OF rest, of kept ?r2 ?l2 w1] unfolding cs2 by auto
    have codes: "local_flush_codes l w (filter (flush_selects loc nm) (item # rest)) = t # ?cs"
      using True one by simp
    have ms: "filter (flush_selects loc nm) (item # rest) = item # ?ms"
      using True by simp
    have c1: "local_flush_loop (flush_match loc nm) nm kept (item # rest) ret l w = Inr (ret', l', w')"
      using True one run by (simp add: skip_selects [OF spn])
    have c2: "ret' = (if ret \<noteq> 0 then ret else first_error (t # ?cs))"
      using r by (simp add: first_error_Cons)
    have c3: "length (t # ?cs) = length (item # ?ms)"
      using len by simp
    have c4: "\<forall>k<length (item # ?ms).
               error_due (force_error l) (object_flushes l + of_nat (Suc k)) \<longrightarrow>
               (t # ?cs) ! k = ENETUNREACH"
    proof (intro allI impI)
      fix k assume k: "k < length (item # ?ms)"
        and due: "error_due (force_error l) (object_flushes l + of_nat (Suc k))"
      show "(t # ?cs) ! k = ENETUNREACH"
      proof (cases k)
        case 0
        with due eff show ?thesis by simp
      next
        case (Suc j)
        have "object_flushes l + 1 + of_nat (Suc j) = object_flushes l + of_nat (Suc k)"
          using Suc by simp
        then have "error_due (force_error l) (object_flushes l + 1 + of_nat (Suc j))"
          using due by metis
        moreover have "j < length ?ms"
          using k Suc by simp
        ultimately have "?cs ! j = ENETUNREACH"
          using hits by blast
        then show ?thesis
          using Suc by simp
      qed
    qed
    have c5: "object_flushes l' = object_flushes l + of_nat (length (item # ?ms))"
      using cnt by simp
    have c6: "fault w' = fault w"
      using fw fw' by simp
    have c7: "files w' = (\<lambda>p. if p \<in> unlinked_markers (force_error l) (fault w) (object_flushes l)
                                    (item # ?ms)
                            then None else files w p)"
      using eff unfolding fl fw unlinked_markers_Cons
      by (cases "error_due (force_error l) (object_flushes l + 1)";
          cases "fault w (SysUnlink (marker_path item)) = 0")
         (auto simp: fun_eq_iff)
    show ?thesis
      unfolding ms [symmetric] codes [symmetric] 
      using c1 c2 c3 c4 c5 c6 c7 unfolding ms [symmetric] codes [symmetric] by blast
  qed
qed


text \<open>
  C1. A drain with \<open>force_error = N\<close>, \<open>N > 0\<close>, the locks granted and every queued source
  path holding a slash. Every selected record leaves the flush queue. The selected
  records are all passed to \<^verbatim>\<open>local_flush_one\<close>, in queue order, whatever the earlier ones
  returned (the flush count grows by their number), and the drain returns the first
  return value that is not 0. The record that brings the flush count to a multiple of
  \<open>N\<close> reports \<^verbatim>\<open>ENETUNREACH\<close>. The marker files taken from the disk are those of the
  selected records that do not report the simulated failure (and whose \<^verbatim>\<open>unlink\<close> the
  system lets through): the marker file of a record that reports the simulated
  failure is not unlinked.
\<close>

theorem local_flush_force_error_drain:
  assumes N: "force_error l \<noteq> 0"
    and lock: "fault w (SysWrlock FLUSH_LOCK) = 0"
    and unlock: "fault w (SysUnlock FLUSH_LOCK) = 0"
    and sp: "\<forall>f\<in>set (flushq l). \<exists>sp. src_path f = Some sp \<and> CHR ''/'' \<in> set sp"
    and ok: "\<not> (loc = None \<and> nm \<noteq> None)"
    and ms: "ms = filter (flush_selects loc nm) (flushq l)"
    and codes: "codes = local_flush_codes (l\<lparr>op_count := op_count l + 1\<rparr>)
                          (logged w (SysWrlock FLUSH_LOCK)) ms"
  shows "\<exists>ret l' w'. local_flush l w loc nm = Inr (ret, l', w')
           \<and> flushq l' = filter (\<lambda>f. \<not> flush_selects loc nm f) (flushq l)
           \<and> length codes = length ms
           \<and> object_flushes l' = object_flushes l + of_nat (length ms)
           \<and> ret = first_error codes
           \<and> (\<forall>k<length ms.
                 (object_flushes l + of_nat (Suc k)) mod ucast (force_error l) = 0 \<longrightarrow>
                 codes ! k = ENETUNREACH)
           \<and> files w' =
               (\<lambda>p. if p \<in> {marker_path (ms ! k) |k. k < length ms
                                \<and> (object_flushes l + of_nat (Suc k)) mod ucast (force_error l) \<noteq> 0
                                \<and> fault w (SysUnlink (marker_path (ms ! k))) = 0}
                     then None else files w p)"
proof -
  let ?l1 = "l\<lparr>op_count := op_count l + 1\<rparr>"
  let ?w1 = "logged w (SysWrlock FLUSH_LOCK)"
  have sp': "\<forall>f\<in>set (flushq l). src_path f \<noteq> None"
    using sp by auto
  have l1: "?l1 = ?l1\<lparr>flushq := [] @ flushq l\<rparr>" by simp
  obtain r l2 w2 where loop:
    "local_flush_loop (flush_match loc nm) nm [] (flushq l) 0 ?l1 ?w1 = Inr (r, l2, w2)"
    and r: "r = first_error codes"
    and len: "length codes = length ms"
    and hits: "\<forall>k<length ms. error_due (force_error ?l1) (object_flushes ?l1 + of_nat (Suc k))
                 \<longrightarrow> codes ! k = ENETUNREACH"
    and cnt: "object_flushes l2 = object_flushes ?l1 + of_nat (length ms)"
    and fw: "fault w2 = fault ?w1"
    and fl: "files w2 = (\<lambda>p. if p \<in> unlinked_markers (force_error ?l1) (fault ?w1)
                                     (object_flushes ?l1) ms
                             then None else files ?w1 p)"
    using loop_drain [OF sp, of loc nm "[]" 0 ?l1 ?w1] unfolding ms codes by auto
  obtain r' l2' w2' where loop':
    "local_flush_loop (flush_match loc nm) nm [] (flushq l) 0 ?l1 ?w1 = Inr (r', l2', w2')"
    and q: "flushq l2' = [] @ filter (\<lambda>f. \<not> flush_selects loc nm f) (flushq l)"
    using loop_queue [OF sp', of loc nm "[]" 0 ?l1 ?w1] l1 by metis
  have same: "l2' = l2" using loop loop' by simp
  have guard: "\<not> (loc = None \<and> (\<exists>y. nm = Some y))"
    using ok by auto
  have unl: "fault w2 (SysUnlock FLUSH_LOCK) = 0"
    using fw unlock by (simp add: logged_def)
  have run: "local_flush l w loc nm = Inr (r, l2, logged w2 (SysUnlock FLUSH_LOCK))"
    using guard lock loop unl
    by (auto simp add: local_flush_def pthread_rwlock_wrlock_def pthread_rwlock_unlock_def
        flush_match_def split: prod.splits)
  have set_eq: "unlinked_markers (force_error ?l1) (fault ?w1) (object_flushes ?l1) ms
        = {marker_path (ms ! k) |k. k < length ms
             \<and> (object_flushes l + of_nat (Suc k)) mod ucast (force_error l) \<noteq> 0
             \<and> fault w (SysUnlink (marker_path (ms ! k))) = 0}"
    using N by (simp add: unlinked_markers_def error_due_def logged_def)
  have c_files: "files (logged w2 (SysUnlock FLUSH_LOCK)) =
               (\<lambda>p. if p \<in> {marker_path (ms ! k) |k. k < length ms
                                \<and> (object_flushes l + of_nat (Suc k)) mod ucast (force_error l) \<noteq> 0
                                \<and> fault w (SysUnlink (marker_path (ms ! k))) = 0}
                     then None else files w p)"
  proof -
    have a: "files (logged w (SysWrlock FLUSH_LOCK)) = files w"
      by (simp add: logged_def)
    have b: "files (logged w2 (SysUnlock FLUSH_LOCK)) = files w2"
      by (simp add: logged_def)
    show ?thesis
      unfolding b using fl unfolding set_eq a .
  qed
  have c_hits: "\<forall>k<length ms.
                 (object_flushes l + of_nat (Suc k)) mod ucast (force_error l) = 0 \<longrightarrow>
                 codes ! k = ENETUNREACH"
    using hits N by (simp add: error_due_def)
  have c_cnt: "object_flushes l2 = object_flushes l + of_nat (length ms)"
    using cnt by simp
  have c_q: "flushq l2 = filter (\<lambda>f. \<not> flush_selects loc nm f) (flushq l)"
    using q same by simp
  show ?thesis
  proof (intro exI conjI)
    show "local_flush l w loc nm = Inr (r, l2, logged w2 (SysUnlock FLUSH_LOCK))"
      by (rule run)
  qed (rule c_q len c_cnt r c_hits c_files)+
qed

theorem local_flush_force_error_drain_witness:
  "force_error three_pending \<noteq> 0
   \<and> fault three_markers (SysWrlock FLUSH_LOCK) = 0
   \<and> fault three_markers (SysUnlock FLUSH_LOCK) = 0
   \<and> map src_path (flushq three_pending) = [Some ''b/c_x'', Some ''b/c_y'', Some ''b/d_z'']
   \<and> (\<exists>ret l' w'. local_flush three_pending three_markers None None = Inr (ret, l', w')
          \<and> flushq l' = [] \<and> object_flushes l' = 3 \<and> ret = ENETUNREACH)"
proof -
  let ?ms = "[pending ''c_'' ''x'', pending ''c_'' ''y'', pending ''d_'' ''z'']"
  let ?codes = "[0, ENETUNREACH, 0]"
  have h1: "force_error three_pending \<noteq> 0"
    by (simp add: three_pending_def fresh_storage_def)
  have h2: "fault three_markers (SysWrlock FLUSH_LOCK) = 0"
    by (simp add: three_markers_def quiet_world_def)
  have h3: "fault three_markers (SysUnlock FLUSH_LOCK) = 0"
    by (simp add: three_markers_def quiet_world_def)
  have h4: "\<forall>f\<in>set (flushq three_pending). \<exists>sp. src_path f = Some sp \<and> CHR ''/'' \<in> set sp"
    by (simp add: three_pending_def fresh_storage_def pending_def)
  have h5: "\<not> (None = (None :: local_location option) \<and> (None :: string option) \<noteq> None)"
    by simp
  have h6: "?ms = filter (flush_selects None None) (flushq three_pending)"
    by (simp add: flush_selects_def three_pending_def fresh_storage_def)
  have h7: "?codes = local_flush_codes (three_pending\<lparr>op_count := op_count three_pending + 1\<rparr>)
                       (logged three_markers (SysWrlock FLUSH_LOCK)) ?ms"
    by (simp add: local_flush_one_def local_delay_def local_flush_one_unlink_def sys_defs
        three_pending_def three_markers_def fresh_storage_def quiet_world_def pending_def
        Let_def ENETUNREACH_def)
  obtain ret l' w' where
    run: "local_flush three_pending three_markers None None = Inr (ret, l', w')"
    and q: "flushq l' = filter (\<lambda>f. \<not> flush_selects None None f) (flushq three_pending)"
    and cnt: "object_flushes l' = object_flushes three_pending + of_nat (length ?ms)"
    and r: "ret = first_error ?codes"
    using local_flush_force_error_drain [OF h1 h2 h3 h4 h5 h6 h7] by blast
  have "flushq l' = []"
    using q by (simp add: flush_selects_def)
  moreover have "object_flushes l' = 3"
    using cnt by (simp add: three_pending_def fresh_storage_def)
  moreover have "ret = ENETUNREACH"
    using r by (simp add: first_error_def ENETUNREACH_def)
  moreover have "map src_path (flushq three_pending)
                   = [Some ''b/c_x'', Some ''b/c_y'', Some ''b/d_z'']"
    by (simp add: three_pending_def fresh_storage_def pending_def)
  ultimately show ?thesis
    using h1 h2 h3 run by blast
qed

text \<open>
  C1 as it is worded has the marker file of every selected record deleted, also when
  the record reports the simulated failure. With \<open>force_error = 2\<close> and three records, the
  second record reports \<^verbatim>\<open>ENETUNREACH\<close> and leaves the queue with the others, and its
  marker file \<open>b/FLUSH_c_y\<close> is still on the disk after the drain.
\<close>

theorem local_flush_failed_record_keeps_marker:
  "local_flush three_pending three_markers None None =
     Inr (ENETUNREACH,
          three_pending\<lparr>op_count := 1, object_flushes := 3, flushq := []\<rparr>,
          three_markers\<lparr>files := (files three_markers)
                                     (''b/FLUSH_c_x'' := None, ''b/FLUSH_d_z'' := None),
                        trace := [SysWrlock FLUSH_LOCK, SysUnlink ''b/FLUSH_c_x'',
                                  SysUnlink ''b/FLUSH_d_z'', SysUnlock FLUSH_LOCK]\<rparr>)
   \<and> ((files three_markers)(''b/FLUSH_c_x'' := None, ''b/FLUSH_d_z'' := None)) ''b/FLUSH_c_y''
       = Some 4"
  by (simp add: local_flush_def local_flush_skip_def local_flush_one_def local_delay_def
      local_flush_one_unlink_def sys_defs three_pending_def three_markers_def fresh_storage_def
      quiet_world_def pending_def Let_def ENETUNREACH_def)

section \<open>Closing a created object\<close>

text \<open>
  C2. The close of a handle that created an object, with the locks granted. The flush
  record goes to the head of the flush queue, with its source path set to the final
  path, before the descriptor is closed and before the rename is tried (the calls on
  the flush lock come before \<^verbatim>\<open>close\<close> and \<^verbatim>\<open>rename\<close> in the trace), and it is in the
  queue when the close returns, whatever became of the rename. When the descriptor is
  closed and the rename succeeds, the close returns 0 and the final name holds the file
  of the temporary name. Otherwise the close returns the error and the names on the
  disk are as before: the object is not visible under its final name and the marker
  file is left behind.
\<close>

theorem local_file_close_enqueues_then_renames:
  assumes item: "flush fh = Some item" and tp: "temp_path fh = Some tp"
    and l1: "fault w (SysWrlock FILE_HANDLE_LOCK) = 0"
    and l2: "fault w (SysUnlock FILE_HANDLE_LOCK) = 0"
    and l3: "fault w (SysWrlock FLUSH_LOCK) = 0"
    and l4: "fault w (SysUnlock FLUSH_LOCK) = 0"
  shows "\<exists>ret l' w'. local_file_close l w fh = Inr (ret, l', w')
           \<and> flushq l' = item\<lparr>src_path := Some (path fh)\<rparr> # flushq l
           \<and> trace w' = trace w @ [SysWrlock FILE_HANDLE_LOCK, SysUnlock FILE_HANDLE_LOCK,
                                    SysWrlock FLUSH_LOCK, SysUnlock FLUSH_LOCK, SysClose (fd fh)]
                           @ (if fault w (SysClose (fd fh)) = 0 \<and> fds w (fd fh) \<noteq> None
                              then [SysRename tp (path fh)] else [])
           \<and> (if fault w (SysClose (fd fh)) = 0 \<and> fds w (fd fh) \<noteq> None
                  \<and> fault w (SysRename tp (path fh)) = 0 \<and> files w tp \<noteq> None
               then ret = 0 \<and> files w' (path fh) = files w tp
               else ret \<noteq> 0 \<and> files w' = files w)"
  using assms
  by (auto simp: local_file_close_def local_file_close_enqueue_def local_file_close_internal_def
      sys_defs Let_def ENOENT_def EBADF_def split: prod.splits)

theorem local_file_close_enqueues_then_renames_witness:
  "flush creating_x = Some \<lparr>src_path = None, marker_path = ''b/FLUSH_c_x'',
                             flush_bucket = Some ''b'', flush_kmsid = Some ''k''\<rparr>
   \<and> temp_path creating_x = Some ''b/TEMP_c_x''
   \<and> fault world_rename_fails (SysWrlock FILE_HANDLE_LOCK) = 0
   \<and> fault world_rename_fails (SysUnlock FILE_HANDLE_LOCK) = 0
   \<and> fault world_rename_fails (SysWrlock FLUSH_LOCK) = 0
   \<and> fault world_rename_fails (SysUnlock FLUSH_LOCK) = 0
   \<and> (\<exists>ret l' w'. local_file_close storage_creating_x world_rename_fails creating_x
                       = Inr (ret, l', w')
          \<and> flushq l' = [pending ''c_'' ''x'']
          \<and> ret \<noteq> 0
          \<and> files w' = files world_rename_fails)"
proof -
  let ?item = "\<lparr>src_path = None, marker_path = ''b/FLUSH_c_x'',
                 flush_bucket = Some ''b'', flush_kmsid = Some ''k''\<rparr>"
  have h1: "flush creating_x = Some ?item"
    by (simp add: creating_x_def)
  have h2: "temp_path creating_x = Some ''b/TEMP_c_x''"
    by (simp add: creating_x_def)
  have h3: "fault world_rename_fails (SysWrlock FILE_HANDLE_LOCK) = 0"
    and h4: "fault world_rename_fails (SysUnlock FILE_HANDLE_LOCK) = 0"
    and h5: "fault world_rename_fails (SysWrlock FLUSH_LOCK) = 0"
    and h6: "fault world_rename_fails (SysUnlock FLUSH_LOCK) = 0"
    by (simp_all add: world_rename_fails_def quiet_world_def)
  have fails: "\<not> (fault world_rename_fails (SysClose (fd creating_x)) = 0
                  \<and> fds world_rename_fails (fd creating_x) \<noteq> None
                  \<and> fault world_rename_fails (SysRename ''b/TEMP_c_x'' (path creating_x)) = 0
                  \<and> files world_rename_fails ''b/TEMP_c_x'' \<noteq> None)"
    by (simp add: world_rename_fails_def quiet_world_def creating_x_def EIO_def)
  have q: "?item\<lparr>src_path := Some (path creating_x)\<rparr> # flushq storage_creating_x
           = [pending ''c_'' ''x'']"
    by (simp add: creating_x_def storage_creating_x_def fresh_storage_def pending_def)
  show ?thesis
    using h1 h2 h3 h4 h5 h6 fails
      local_file_close_enqueues_then_renames [OF h1 h2 h3 h4 h5 h6, of storage_creating_x]
    unfolding q by auto
qed

text \<open>
  C2 as it is worded has the flush record enqueued only after the rename has succeeded
  and discarded when the rename fails. In a system where the rename of \<open>b/TEMP_c_x\<close>
  fails with \<^verbatim>\<open>EIO\<close>, the close returns \<^verbatim>\<open>EIO\<close>, nothing is visible under \<open>b/c_x\<close>, and the
  flush record of the object is in the flush queue.
\<close>

theorem local_file_close_rename_fails_record_queued:
  "local_file_close storage_creating_x world_rename_fails creating_x =
     Inr (EIO,
          storage_creating_x\<lparr>fh_ops := 1, fileq := [], flushq := [pending ''c_'' ''x'']\<rparr>,
          world_rename_fails\<lparr>fds := (fds world_rename_fails)(3 := None), errno := EIO,
             trace := [SysWrlock FILE_HANDLE_LOCK, SysUnlock FILE_HANDLE_LOCK,
                       SysWrlock FLUSH_LOCK, SysUnlock FLUSH_LOCK, SysClose 3,
                       SysRename ''b/TEMP_c_x'' ''b/c_x'']\<rparr>)
   \<and> files world_rename_fails ''b/c_x'' = None"
  by (simp add: local_file_close_def local_file_close_enqueue_def local_file_close_internal_def
      sys_defs creating_x_def storage_creating_x_def world_rename_fails_def quiet_world_def
      fresh_storage_def pending_def EIO_def Let_def)

section \<open>Creating an object\<close>

lemma sys_open_trace: "trace (snd (sys_open w p fl m)) = trace w @ [SysOpen p fl m]"
  by (simp add: sys_open_def logged_def Let_def split: option.splits)

lemma sys_open_files: "files w q \<noteq> None \<Longrightarrow> files (snd (sys_open w p fl m)) q \<noteq> None"
  by (simp add: sys_open_def logged_def Let_def split: option.splits)

lemma sys_open_fault: "fault (snd (sys_open w p fl m)) = fault w"
  by (simp add: sys_open_def logged_def Let_def split: option.splits)

lemma sys_open_failed:
  "fault w (SysOpen p fl m) \<noteq> 0 \<Longrightarrow>
     fst (sys_open w p fl m) < 0 \<and> errno (snd (sys_open w p fl m)) \<noteq> 0"
  by (simp add: sys_open_def logged_def Let_def)

lemma sys_open_negative:
  "fst (sys_open w p fl m) < 0 \<Longrightarrow> errno (snd (sys_open w p fl m)) \<noteq> 0"
  by (auto simp: sys_open_def logged_def Let_def ENOENT_def split: option.splits if_splits)

lemma sys_open_created:
  "fault w (SysOpen p O_WRONLY_CREAT m) = 0 \<Longrightarrow>
     fst (sys_open w p O_WRONLY_CREAT m) = int (next_fd w)
     \<and> files (snd (sys_open w p O_WRONLY_CREAT m)) p \<noteq> None
     \<and> fds (snd (sys_open w p O_WRONLY_CREAT m)) (int (next_fd w)) \<noteq> None"
  by (simp add: sys_open_def logged_def Let_def split: option.splits)

lemma sys_close_trace: "trace (snd (sys_close w d)) = trace w @ [SysClose d]"
  by (simp add: sys_close_def logged_def Let_def)

lemma sys_close_files: "files (snd (sys_close w d)) = files w"
  by (simp add: sys_close_def logged_def Let_def)

lemma sys_close_fault: "fault (snd (sys_close w d)) = fault w"
  by (simp add: sys_close_def logged_def Let_def)

lemma sys_close_failed:
  "fault w (SysClose d) \<noteq> 0 \<Longrightarrow>
     fst (sys_close w d) < 0 \<and> errno (snd (sys_close w d)) \<noteq> 0"
  by (simp add: sys_close_def logged_def Let_def)

lemma sys_close_closed:
  "fault w (SysClose d) = 0 \<Longrightarrow> fds w d \<noteq> None \<Longrightarrow> fst (sys_close w d) = 0"
  by (simp add: sys_close_def logged_def Let_def)

lemma rwlock_trace:
  "trace (snd (pthread_rwlock_wrlock w k)) = trace w @ [SysWrlock k]"
  "trace (snd (pthread_rwlock_unlock w k)) = trace w @ [SysUnlock k]"
  by (simp_all add: pthread_rwlock_wrlock_def pthread_rwlock_unlock_def logged_def)

lemma rwlock_files:
  "files (snd (pthread_rwlock_wrlock w k)) = files w"
  "files (snd (pthread_rwlock_unlock w k)) = files w"
  by (simp_all add: pthread_rwlock_wrlock_def pthread_rwlock_unlock_def logged_def)

lemma local_open_err_handle:
  "local_open_err ret l w (Some fh) = Inr (ret, None, l, snd (sys_close w (fd fh)))"
  by (simp add: local_open_err_def local_file_close_internal_def Let_def split: prod.splits)

lemma local_open_file_trace:
  "\<exists>ret fh' l' w' ev.
     local_open_file l w fh open_name fl nm = Inr (ret, fh', l', w')
     \<and> trace w' = trace w @ SysOpen open_name fl 292 # ev
     \<and> (\<forall>p. files w p \<noteq> None \<longrightarrow> files w' p \<noteq> None)"
proof -
  let ?o = "sys_open w open_name fl 292"
  let ?w1 = "snd ?o"
  let ?fh1 = "fh\<lparr>fd := fst ?o, iface_name := nm\<rparr>"
  let ?k = "pthread_rwlock_wrlock ?w1 FILE_HANDLE_LOCK"
  let ?u = "pthread_rwlock_unlock (snd ?k) FILE_HANDLE_LOCK"
  have f1: "\<And>p. files w p \<noteq> None \<Longrightarrow> files ?w1 p \<noteq> None"
    by (rule sys_open_files)
  show ?thesis
  proof (cases "fst ?o < 0")
    case True
    then have "local_open_file l w fh open_name fl nm
               = Inr (errno ?w1, None, l, snd (sys_close ?w1 (fd fh)))"
      by (simp add: local_open_file_def local_open_err_handle case_prod_beta Let_def)
    then show ?thesis
      using f1 by (simp add: sys_close_trace sys_close_files sys_open_trace)
  next
    case False
    note open_ok = False
    show ?thesis
    proof (cases "fst ?k \<noteq> 0")
      case True
      then have "local_open_file l w fh open_name fl nm
               = Inr (fst ?k, None, l, snd (sys_close (snd ?k) (fst ?o)))"
        using open_ok
        by (simp add: local_open_file_def local_open_err_handle case_prod_beta Let_def)
      then show ?thesis
        using f1 by (simp add: sys_close_trace sys_close_files sys_open_trace rwlock_trace rwlock_files)
    next
      case False
      note lock_ok = False
      show ?thesis
      proof (cases "fst ?u \<noteq> 0")
        case True
        then have "local_open_file l w fh open_name fl nm
               = Inr (fst ?u, None, l\<lparr>fileq := ?fh1 # fileq l\<rparr>, snd (sys_close (snd ?u) (fst ?o)))"
          using open_ok lock_ok
          by (simp add: local_open_file_def local_open_err_handle case_prod_beta Let_def)
        then show ?thesis
          using f1 by (simp add: sys_close_trace sys_close_files sys_open_trace rwlock_trace rwlock_files)
      next
        case False
        then have "local_open_file l w fh open_name fl nm
               = Inr (0, Some ?fh1, l\<lparr>fileq := ?fh1 # fileq l\<rparr>, snd ?u)"
          using open_ok lock_ok
          by (simp add: local_open_file_def local_open_err_handle case_prod_beta Let_def)
        then show ?thesis
          using f1 by (simp add: sys_open_trace rwlock_trace rwlock_files)
      qed
    qed
  qed
qed

text \<open>
  C7. Every execution of an object create returns, and the first call it makes is the
  \<^verbatim>\<open>open\<close> that creates the \<open>FLUSH_\<close> marker file. If that \<^verbatim>\<open>open\<close> or the \<^verbatim>\<open>close\<close> of its
  descriptor fails, the create fails, no handle is returned and the \<open>TEMP_\<close> file is
  not opened. Otherwise the next two calls are the \<^verbatim>\<open>close\<close> of the marker's descriptor
  and the \<^verbatim>\<open>open\<close> of the \<open>TEMP_\<close> file, in this order; the marker file exists in the
  world in which the \<open>TEMP_\<close> file is opened, and it exists when the create returns.
\<close>

theorem local_open_create_marker_first:
  assumes create: "flags = WT_SS_OPEN_CREATE h"
  shows "\<exists>ret fh l' w' ev.
           local_open h l w location nm flags = Inr (ret, fh, l', w')
         \<and> trace w' = trace w
             @ SysOpen (local_location_path location nm (Some MARKER_NEED_FLUSH)) O_WRONLY_CREAT 438
             # ev
         \<and> (if fault w (SysOpen (local_location_path location nm (Some MARKER_NEED_FLUSH))
                          O_WRONLY_CREAT 438) \<noteq> 0
               \<or> fault w (SysClose (int (next_fd w))) \<noteq> 0
             then ret \<noteq> 0 \<and> fh = None
                \<and> SysOpen (local_location_path location nm (Some MARKER_TEMPORARY))
                     O_WRONLY_CREAT 292 \<notin> set ev
             else take 2 ev =
                    [SysClose (int (next_fd w)),
                     SysOpen (local_location_path location nm (Some MARKER_TEMPORARY))
                       O_WRONLY_CREAT 292]
                \<and> files (snd (sys_close
                                 (snd (sys_open w
                                         (local_location_path location nm (Some MARKER_NEED_FLUSH))
                                         O_WRONLY_CREAT 438))
                                 (int (next_fd w))))
                     (local_location_path location nm (Some MARKER_NEED_FLUSH)) \<noteq> None
                \<and> files w' (local_location_path location nm (Some MARKER_NEED_FLUSH)) \<noteq> None)"
proof -
  let ?mp = "local_location_path location nm (Some MARKER_NEED_FLUSH)"
  let ?tp = "local_location_path location nm (Some MARKER_TEMPORARY)"
  let ?l1 = "l\<lparr>op_count := op_count l + 1\<rparr>"
  let ?o = "sys_open w ?mp O_WRONLY_CREAT 438"
  let ?c = "sys_close (snd ?o) (fst ?o)"
  let ?item0 = "\<lparr>src_path = None, marker_path = ?mp, flush_bucket = None, flush_kmsid = None\<rparr>"
  let ?fh0 = "\<lparr>fd = 0, path = local_location_path location nm None,
                temp_path = None, flush = None, iface_name = []\<rparr>"
  let ?fh1 = "?fh0\<lparr>flush := Some ?item0\<rparr>"
  let ?fh2 = "?fh1\<lparr>flush := Some (?item0\<lparr>flush_bucket := Some (bucket location),
                                             flush_kmsid := Some (kmsid location)\<rparr>),
                   temp_path := Some ?tp\<rparr>"
  show ?thesis
  proof (cases "fault w (SysOpen ?mp O_WRONLY_CREAT 438) \<noteq> 0")
    case True
    have neg: "fst ?o < 0" and en: "errno (snd ?o) \<noteq> 0"
      using sys_open_failed [OF True] by auto
    have "local_open h l w location nm flags
          = Inr (errno (snd ?o), None, ?l1, snd (sys_close (snd ?o) 0))"
      using create neg
      by (simp add: local_open_def local_open_err_handle case_prod_beta Let_def)
    then show ?thesis
      using True en by (simp add: sys_close_trace sys_open_trace)
  next
    case False
    then have f0: "fault w (SysOpen ?mp O_WRONLY_CREAT 438) = 0" by simp
    have d: "fst ?o = int (next_fd w)" and made: "files (snd ?o) ?mp \<noteq> None"
      and isopen: "fds (snd ?o) (int (next_fd w)) \<noteq> None"
      using sys_open_created [OF f0] by auto
    have nneg: "\<not> fst ?o < 0" using d by simp
    show ?thesis
    proof (cases "fault w (SysClose (int (next_fd w))) \<noteq> 0")
      case True
      then have "fault (snd ?o) (SysClose (fst ?o)) \<noteq> 0"
        by (simp add: d sys_open_fault)
      then have neg: "fst ?c < 0" and en: "errno (snd ?c) \<noteq> 0"
        using sys_close_failed by auto
      have "local_open h l w location nm flags
            = Inr (errno (snd ?c), None, ?l1, snd (sys_close (snd ?c) 0))"
        using create nneg neg
        by (simp add: local_open_def local_open_err_handle case_prod_beta Let_def)
      then show ?thesis
        using True en by (simp add: sys_close_trace sys_open_trace d)
    next
      case False
      then have "fault (snd ?o) (SysClose (fst ?o)) = 0"
        by (simp add: d sys_open_fault)
      then have "fst ?c = 0"
        using isopen d sys_close_closed by simp
      then have cnneg: "\<not> fst ?c < 0" by simp
      have eq: "local_open h l w location nm flags
                = local_open_file ?l1 (snd ?c) ?fh2 ?tp O_WRONLY_CREAT nm"
        using create nneg cnneg
        by (simp add: local_open_def case_prod_beta Let_def)
      obtain ret fh' l' w' ev where
        run: "local_open_file ?l1 (snd ?c) ?fh2 ?tp O_WRONLY_CREAT nm = Inr (ret, fh', l', w')"
        and tr: "trace w' = trace (snd ?c) @ SysOpen ?tp O_WRONLY_CREAT 292 # ev"
        and keep: "\<forall>p. files (snd ?c) p \<noteq> None \<longrightarrow> files w' p \<noteq> None"
        using local_open_file_trace [of ?l1 "snd ?c" ?fh2 ?tp O_WRONLY_CREAT nm] by blast
      have at_open: "files (snd ?c) ?mp \<noteq> None"
        using made by (simp add: sys_close_files)
      then have at_end: "files w' ?mp \<noteq> None"
        using keep by blast
      have tr': "trace w' = trace w @ SysOpen ?mp O_WRONLY_CREAT 438
                   # (SysClose (int (next_fd w)) # SysOpen ?tp O_WRONLY_CREAT 292 # ev)"
        using tr by (simp add: sys_close_trace sys_open_trace d)
      have at_open': "files (snd (sys_close (snd ?o) (int (next_fd w)))) ?mp \<noteq> None"
        using at_open d by simp
      show ?thesis
        using f0 False eq run tr' at_open' at_end by auto
    qed
  qed
qed

theorem local_open_create_marker_first_witness:
  "(1 :: 32 word) = WT_SS_OPEN_CREATE wiredtiger_h
   \<and> (\<exists>ret fh l' w' ev.
         local_open wiredtiger_h fresh_storage quiet_world location_c ''x'' 1
           = Inr (ret, fh, l', w')
         \<and> trace w' = SysOpen ''b/FLUSH_c_x'' O_WRONLY_CREAT 438 # ev
         \<and> take 2 ev = [SysClose 3, SysOpen ''b/TEMP_c_x'' O_WRONLY_CREAT 292]
         \<and> files w' ''b/FLUSH_c_x'' \<noteq> None)"
proof -
  have h: "(1 :: 32 word) = WT_SS_OPEN_CREATE wiredtiger_h"
    by (simp add: wiredtiger_h_def)
  have mp: "local_location_path location_c ''x'' (Some MARKER_NEED_FLUSH) = ''b/FLUSH_c_x''"
    and tp: "local_location_path location_c ''x'' (Some MARKER_TEMPORARY) = ''b/TEMP_c_x''"
    by (simp_all add: local_location_path_def location_c_def MARKER_NEED_FLUSH_def
        MARKER_TEMPORARY_def)
  have quiet: "\<not> (fault quiet_world (SysOpen ''b/FLUSH_c_x'' O_WRONLY_CREAT 438) \<noteq> 0
                   \<or> fault quiet_world (SysClose (int (next_fd quiet_world))) \<noteq> 0)"
    by (simp add: quiet_world_def)
  have start: "trace quiet_world = []" and d: "int (next_fd quiet_world) = 3"
    by (simp_all add: quiet_world_def)
  obtain ret fh l' w' ev where
    run: "local_open wiredtiger_h fresh_storage quiet_world location_c ''x'' 1
            = Inr (ret, fh, l', w')"
    and tr: "trace w' = trace quiet_world @ SysOpen ''b/FLUSH_c_x'' O_WRONLY_CREAT 438 # ev"
    and rest: "if fault quiet_world (SysOpen ''b/FLUSH_c_x'' O_WRONLY_CREAT 438) \<noteq> 0
                  \<or> fault quiet_world (SysClose (int (next_fd quiet_world))) \<noteq> 0
               then ret \<noteq> 0 \<and> fh = None
                  \<and> SysOpen ''b/TEMP_c_x'' O_WRONLY_CREAT 292 \<notin> set ev
               else take 2 ev = [SysClose (int (next_fd quiet_world)),
                                 SysOpen ''b/TEMP_c_x'' O_WRONLY_CREAT 292]
                  \<and> files (snd (sys_close
                                   (snd (sys_open quiet_world ''b/FLUSH_c_x'' O_WRONLY_CREAT 438))
                                   (int (next_fd quiet_world)))) ''b/FLUSH_c_x'' \<noteq> None
                  \<and> files w' ''b/FLUSH_c_x'' \<noteq> None"
    using local_open_create_marker_first [OF h, of fresh_storage quiet_world location_c "''x''"]
    unfolding mp tp by blast
  have "take 2 ev = [SysClose 3, SysOpen ''b/TEMP_c_x'' O_WRONLY_CREAT 292]"
    and "files w' ''b/FLUSH_c_x'' \<noteq> None"
    using rest quiet unfolding d by auto
  moreover have "trace w' = SysOpen ''b/FLUSH_c_x'' O_WRONLY_CREAT 438 # ev"
    using tr start by simp
  ultimately show ?thesis
    using h run by blast
qed

section \<open>Listing the objects of a location\<close>

lemma list_entry_listed:
  "local_location_list_entry location None pfx d =
     (if listed location pfx d then Some (drop (length (cluster_prefix location)) d) else None)"
  by (auto simp: local_location_list_entry_def listed_def strncmp_eq_prefix Let_def
      MARKER_TEMPORARY_def MARKER_NEED_FLUSH_def split: option.splits)

lemma list_loop:
  assumes "unat count = length entries" and "length entries + length ds < 2 ^ 32"
  shows "local_location_list_loop location None pfx limit ds entries count =
           (entries @ (if limit = 0
                       then map (drop (length (cluster_prefix location))) (filter (listed location pfx) ds)
                       else take (unat limit - length entries)
                              (map (drop (length (cluster_prefix location))) (filter (listed location pfx) ds))),
            of_nat (length (entries @ (if limit = 0
                       then map (drop (length (cluster_prefix location))) (filter (listed location pfx) ds)
                       else take (unat limit - length entries)
                              (map (drop (length (cluster_prefix location))) (filter (listed location pfx) ds))))))"
  using assms
proof (induction ds arbitrary: entries count)
  case Nil
  have "count = of_nat (length entries)"
    using Nil.prems(1) by (metis of_nat_unat ucast_id)
  then show ?case by simp
next
  case (Cons d ds)
  let ?cp = "length (cluster_prefix location)"
  have cnt: "count = of_nat (length entries)"
    using Cons.prems(1) by (metis of_nat_unat ucast_id)
  show ?case
  proof (cases "limit = 0 \<or> count < limit")
    case False
    then have "limit \<noteq> 0" and "unat limit \<le> length entries"
      using Cons.prems(1) by (auto simp: word_less_nat_alt)
    with False cnt show ?thesis by simp
  next
    case True
    note go = True
    show ?thesis
    proof (cases "listed location pfx d")
      case False
      have "length entries + length ds < 2 ^ 32"
        using Cons.prems(2) by simp
      from Cons.IH [OF Cons.prems(1) this] go False show ?thesis
        by (simp add: list_entry_listed)
    next
      case True
      have bound: "length (entries @ [drop ?cp d]) + length ds < 2 ^ 32"
        using Cons.prems(2) by simp
      have "unat count + 1 < 2 ^ 32"
        using Cons.prems by simp
      then have "unat (count + 1) = unat count + 1"
        by (simp add: unat_word_ariths)
      then have c1: "unat (count + 1) = length (entries @ [drop ?cp d])"
        using Cons.prems(1) by simp
      have room: "limit \<noteq> 0 \<Longrightarrow> unat limit - length entries = Suc (unat limit - Suc (length entries))"
        using go Cons.prems(1) by (auto simp: word_less_nat_alt)
      from Cons.IH [OF c1 bound] go True room show ?thesis
        by (auto simp: list_entry_listed)
    qed
  qed
qed

text \<open>
  C6. An ordinary listing (no marker) of a bucket directory that can be opened and has
  fewer than \<open>2^32\<close> entries returns 0 and, in the order of enumeration, the entries that
  are not \<open>.\<close> or \<open>..\<close>, do not begin with \<open>TEMP_\<close> or \<open>FLUSH_\<close>, begin with the cluster
  prefix of the location and, behind it, with the caller's prefix if there is one; the
  cluster prefix is stripped. With the limit 0 these are all returned, with a limit
  above 0 the first \<open>limit\<close> of them; the count is the number of names returned.
\<close>

theorem local_location_list_filtered:
  assumes "fault w (SysOpendir (bucket location)) = 0"
    and "length (dirs w (bucket location)) < 2 ^ 32"
  shows "local_location_list l w location pfx limit =
           (0,
            (if limit = 0
             then map (drop (length (cluster_prefix location)))
                    (filter (listed location pfx) (dirs w (bucket location)))
             else take (unat limit)
                    (map (drop (length (cluster_prefix location)))
                       (filter (listed location pfx) (dirs w (bucket location))))),
            of_nat (length
              (if limit = 0
               then map (drop (length (cluster_prefix location)))
                      (filter (listed location pfx) (dirs w (bucket location)))
               else take (unat limit)
                      (map (drop (length (cluster_prefix location)))
                         (filter (listed location pfx) (dirs w (bucket location)))))),
            l\<lparr>op_count := op_count l + 1\<rparr>,
            logged w (SysOpendir (bucket location)))"
proof -
  have "unat (0 :: 32 word) = length ([] :: string list)" by simp
  moreover have "length ([] :: string list) + length (dirs w (bucket location)) < 2 ^ 32"
    using assms(2) by simp
  ultimately show ?thesis
    using assms(1) list_loop [of 0 "[]" "dirs w (bucket location)" location pfx limit]
    by (simp add: local_location_list_def local_location_list_internal_def sys_opendir_def Let_def)
qed

theorem local_location_list_filtered_witness:
  "fault world_listing (SysOpendir (bucket location_c)) = 0
   \<and> length (dirs world_listing (bucket location_c)) < 2 ^ 32
   \<and> local_location_list fresh_storage world_listing location_c (Some ''a'') 2
       = (0, [''ab'', ''a1''], 2, fresh_storage\<lparr>op_count := op_count fresh_storage + 1\<rparr>,
          logged world_listing (SysOpendir (bucket location_c)))
   \<and> local_location_list fresh_storage world_listing location_c None 0
       = (0, [''ab'', ''b'', ''a1'', ''a2''], 4,
          fresh_storage\<lparr>op_count := op_count fresh_storage + 1\<rparr>,
          logged world_listing (SysOpendir (bucket location_c)))"
proof -
  have h1: "fault world_listing (SysOpendir (bucket location_c)) = 0"
    by (simp add: world_listing_def quiet_world_def)
  have h2: "length (dirs world_listing (bucket location_c)) < 2 ^ 32"
    by (simp add: world_listing_def quiet_world_def location_c_def)
  have ds: "dirs world_listing (bucket location_c)
            = [''.'', ''..'', ''c_ab'', ''TEMP_c_ac'', ''FLUSH_c_ab'', ''d_ab'', ''c_b'',
               ''c_a1'', ''c_a2'']"
    by (simp add: world_listing_def quiet_world_def location_c_def)
  have cp: "cluster_prefix location_c = ''c_''"
    by (simp add: location_c_def)
  have a: "map (drop (length (cluster_prefix location_c)))
             (filter (listed location_c (Some ''a'')) (dirs world_listing (bucket location_c)))
           = [''ab'', ''a1'', ''a2'']"
    unfolding ds by (simp add: listed_def cp)
  have b: "map (drop (length (cluster_prefix location_c)))
             (filter (listed location_c None) (dirs world_listing (bucket location_c)))
           = [''ab'', ''b'', ''a1'', ''a2'']"
    unfolding ds by (simp add: listed_def cp)
  show ?thesis
    using h1 h2
      local_location_list_filtered [OF h1 h2, of fresh_storage "Some ''a''" 2]
      local_location_list_filtered [OF h1 h2, of fresh_storage None 0]
    unfolding a b by simp
qed

section \<open>Reading at the end of a file\<close>

lemma pread_at_eof:
  assumes "at_eof d w offset"
  shows "sys_pread w d len offset = (0, [], logged w (SysPread d (unat len) offset))"
    and "at_eof d (logged w (SysPread d (unat len) offset)) offset"
  using assms
  by (auto simp: at_eof_def sys_pread_def logged_def Let_def split: option.splits)

lemma read_loop_diverges:
  assumes "local_file_read_loop d ret w offset len buf = Some y"
  shows "\<not> (ret = 0 \<and> 0 < len \<and> at_eof d w offset)"
proof (rule local_file_read_loop.raw_induct
    [where P = "\<lambda>d ret w offset len buf y. \<not> (ret = 0 \<and> 0 < len \<and> at_eof d w offset)",
      OF _ assms])
  fix f :: "int \<Rightarrow> int \<Rightarrow> world \<Rightarrow> int \<Rightarrow> 64 word \<Rightarrow> byte list \<Rightarrow> (int \<times> byte list \<times> world) option"
    and d ret w offset len buf y
  assume IH: "\<And>d ret w offset len buf y. f d ret w offset len buf = Some y \<Longrightarrow>
                \<not> (ret = 0 \<and> 0 < len \<and> at_eof d w offset)"
    and body: "(if ret = 0 \<and> 0 < len
      then case sys_pread w d len offset of
           (nbytes, dat, w1) \<Rightarrow>
             if nbytes < 0
             then f d (errno w1) w1 offset len buf
             else f d ret w1 (offset + nbytes)
                   (len - word_of_int nbytes) (buf @ dat)
      else Some (ret, buf, w)) = Some y"
  show "\<not> (ret = 0 \<and> 0 < len \<and> at_eof d w offset)"
  proof
    assume a: "ret = 0 \<and> 0 < len \<and> at_eof d w offset"
    then have eof: "at_eof d w offset" by simp
    let ?w1 = "logged w (SysPread d (unat len) offset)"
    have "f d 0 ?w1 offset len buf = Some y"
      using body a by (simp add: pread_at_eof(1) [OF eof])
    then have "\<not> (0 < len \<and> at_eof d ?w1 offset)"
      using IH by blast
    then show False
      using a pread_at_eof(2) [OF eof] by simp
  qed
qed

lemma read_past_eof_never_returns:
  assumes "0 < len" and "at_eof (fd fh) w offset"
  shows "local_file_read l w fh offset len = None"
proof -
  have "local_file_read_loop (fd fh) 0 w offset len [] = None"
    using read_loop_diverges [of "fd fh" 0 w offset len "[]"] assms
    by (cases "local_file_read_loop (fd fh) 0 w offset len []") auto
  then show ?thesis
    by (simp add: local_file_read_def)
qed

text \<open>
  C8. A read or write of \<open>len\<close> bytes is to end, for every input, with all the bytes
  transferred or with an I/O failure. The loop of \<^verbatim>\<open>local_file_read\<close> takes a \<^verbatim>\<open>pread\<close> that
  returns 0, which is what \<^verbatim>\<open>pread\<close> returns at the end of the file, for a short transfer
  and tries again with the same arguments. The stored object \<open>x\<close> holds no bytes; it is
  opened for reading, and the read of one byte at offset 0 does not return.
\<close>

theorem local_file_read_at_eof_never_returns:
  "local_open wiredtiger_h fresh_storage world_empty_object location_c ''x'' 2
     = Inr (0, Some reading_x, storage_reading_x, world_reading_x)
   \<and> local_file_read storage_reading_x world_reading_x reading_x 0 1 = None"
proof -
  have "local_open wiredtiger_h fresh_storage world_empty_object location_c ''x'' 2
          = Inr (0, Some reading_x, storage_reading_x, world_reading_x)"
    by (simp add: local_open_def local_open_file_def local_location_path_def sys_defs
        wiredtiger_h_def fresh_storage_def world_empty_object_def quiet_world_def
        location_c_def reading_x_def storage_reading_x_def world_reading_x_def Let_def)
  moreover have "at_eof (fd reading_x) world_reading_x 0"
    by (simp add: at_eof_def reading_x_def world_reading_x_def world_empty_object_def
        quiet_world_def)
  then have "local_file_read storage_reading_x world_reading_x reading_x 0 1 = None"
    by (simp add: read_past_eof_never_returns)
  ultimately show ?thesis by simp
qed

end
